theory Spec2Isabelle
  imports Complex_Main
begin

section \<open>Numeric values and Python errors\<close>

text \<open>
  The arrays of \<^verbatim>\<open>calipso.py\<close> hold IEEE floating-point numbers. A value is modelled as
  a finite real, one of the two infinities, or NaN. Finite arithmetic is exact: rounding,
  overflow and the sign of zero are not modelled. Comparisons with NaN are false, except
  \<^verbatim>\<open>!=\<close>, which is true.
\<close>

datatype fval = Fin real | PInf | NInf | NaN

datatype error =
  AssertionError | ValueError | IndexError | KeyError | TypeError
  | AttributeError | ZeroDivisionError

fun flt :: "fval \<Rightarrow> fval \<Rightarrow> bool" where
  "flt (Fin a) (Fin b) = (a < b)"
| "flt (Fin a) PInf = True"
| "flt NInf (Fin b) = True"
| "flt NInf PInf = True"
| "flt _ _ = False"

definition fgt :: "fval \<Rightarrow> fval \<Rightarrow> bool" where
  "fgt a b = flt b a"

definition fne :: "fval \<Rightarrow> fval \<Rightarrow> bool" where
  "fne a b = (a = NaN \<or> b = NaN \<or> a \<noteq> b)"

definition fge :: "fval \<Rightarrow> fval \<Rightarrow> bool" where
  "fge a b = (flt b a \<or> \<not> fne a b)"

definition fle :: "fval \<Rightarrow> fval \<Rightarrow> bool" where
  "fle a b = (flt a b \<or> \<not> fne a b)"

fun fneg :: "fval \<Rightarrow> fval" where
  "fneg (Fin a) = Fin (- a)"
| "fneg PInf = NInf"
| "fneg NInf = PInf"
| "fneg NaN = NaN"

fun fabs :: "fval \<Rightarrow> fval" where
  "fabs (Fin a) = Fin \<bar>a\<bar>"
| "fabs PInf = PInf"
| "fabs NInf = PInf"
| "fabs NaN = NaN"

fun fadd :: "fval \<Rightarrow> fval \<Rightarrow> fval" where
  "fadd (Fin a) (Fin b) = Fin (a + b)"
| "fadd NaN _ = NaN"
| "fadd _ NaN = NaN"
| "fadd PInf NInf = NaN"
| "fadd NInf PInf = NaN"
| "fadd PInf _ = PInf"
| "fadd _ PInf = PInf"
| "fadd NInf _ = NInf"
| "fadd _ NInf = NInf"

definition fsub :: "fval \<Rightarrow> fval \<Rightarrow> fval" where
  "fsub a b = fadd a (fneg b)"

fun fmul :: "fval \<Rightarrow> fval \<Rightarrow> fval" where
  "fmul (Fin a) (Fin b) = Fin (a * b)"
| "fmul NaN _ = NaN"
| "fmul _ NaN = NaN"
| "fmul (Fin a) PInf = (if a = 0 then NaN else if 0 < a then PInf else NInf)"
| "fmul (Fin a) NInf = (if a = 0 then NaN else if 0 < a then NInf else PInf)"
| "fmul PInf (Fin b) = (if b = 0 then NaN else if 0 < b then PInf else NInf)"
| "fmul NInf (Fin b) = (if b = 0 then NaN else if 0 < b then NInf else PInf)"
| "fmul PInf PInf = PInf"
| "fmul NInf NInf = PInf"
| "fmul PInf NInf = NInf"
| "fmul NInf PInf = NInf"

fun fdiv :: "fval \<Rightarrow> fval \<Rightarrow> fval" where
  "fdiv (Fin a) (Fin b) =
     (if b = 0 then (if a = 0 then NaN else if 0 < a then PInf else NInf)
      else Fin (a / b))"
| "fdiv NaN _ = NaN"
| "fdiv _ NaN = NaN"
| "fdiv (Fin a) PInf = Fin 0"
| "fdiv (Fin a) NInf = Fin 0"
| "fdiv PInf (Fin b) = (if 0 \<le> b then PInf else NInf)"
| "fdiv NInf (Fin b) = (if 0 \<le> b then NInf else PInf)"
| "fdiv PInf PInf = NaN"
| "fdiv PInf NInf = NaN"
| "fdiv NInf PInf = NaN"
| "fdiv NInf NInf = NaN"

fun fsqrt :: "fval \<Rightarrow> fval" where
  "fsqrt (Fin a) = (if a < 0 then NaN else Fin (sqrt a))"
| "fsqrt PInf = PInf"
| "fsqrt NInf = NaN"
| "fsqrt NaN = NaN"

text \<open>\<^verbatim>\<open>np.sum\<close> and \<^verbatim>\<open>ndarray.mean\<close> over one axis: the sum of the elements, divided by
  their number.\<close>

definition fsum :: "fval list \<Rightarrow> fval" where
  "fsum xs = foldl fadd (Fin 0) xs"

definition fmean :: "fval list \<Rightarrow> fval" where
  "fmean xs = fdiv (fsum xs) (Fin (real (length xs)))"

section \<open>Python slicing and numpy indexing\<close>

text \<open>\<^verbatim>\<open>xs[a:b]\<close>: a negative bound counts from the end, and both bounds are clipped to the
  length.\<close>

definition py_slice :: "'a list \<Rightarrow> int \<Rightarrow> int \<Rightarrow> 'a list" where
  "py_slice xs a b =
     (let n = int (length xs);
          a' = (if a < 0 then max 0 (a + n) else min a n);
          b' = (if b < 0 then max 0 (b + n) else min b n)
      in take (nat (b' - a')) (drop (nat a') xs))"

text \<open>The elementwise \<^verbatim>\<open>&\<close> of two boolean vectors, with numpy's broadcasting of a vector
  of length one; any other mismatch of lengths raises ValueError.\<close>

definition np_and :: "bool list \<Rightarrow> bool list \<Rightarrow> error + bool list" where
  "np_and xs ys =
     (if length xs = length ys then Inr (map2 (\<and>) xs ys)
      else if length xs = 1 then Inr (map (\<lambda>y. hd xs \<and> y) ys)
      else if length ys = 1 then Inr (map (\<lambda>x. x \<and> hd ys) xs)
      else Inl ValueError)"

text \<open>\<^verbatim>\<open>xs[idx]\<close> with a boolean vector \<^verbatim>\<open>idx\<close>: the elements at the true positions; the
  lengths must agree.\<close>

definition bool_index :: "'a list \<Rightarrow> bool list \<Rightarrow> error + 'a list" where
  "bool_index xs idx =
     (if length idx \<noteq> length xs then Inl IndexError
      else Inr (map fst (filter snd (zip xs idx))))"

section \<open>The reducers\<close>

subsection \<open>\<^verbatim>\<open>_vector_average\<close>\<close>

text \<open>
  The value of block \<open>i\<close>: the slice \<^verbatim>\<open>v0[n0:n0 + navg - 1]\<close> with \<^verbatim>\<open>n0 = i * navg\<close>, the
  survivors chosen by \<^verbatim>\<open>idx\<close>, and their mean. Without a sentinel a block with no
  survivor is \<^verbatim>\<open>-9999.\<close>; with a sentinel it is \<^verbatim>\<open>None\<close>, which a float array stores as
  NaN.
\<close>

definition vector_block ::
  "fval list \<Rightarrow> int \<Rightarrow> fval option \<Rightarrow> bool list \<Rightarrow> nat \<Rightarrow> error + fval" where
  "vector_block v0 navg missing valid i =
     (let n0 = int i * navg;
          vslice = py_slice v0 n0 (n0 + navg - 1);
          validslice = py_slice valid n0 (n0 + navg - 1)
      in case missing of
           None \<Rightarrow>
             (case np_and validslice (map (\<lambda>x. fgt x (Fin (- 999))) vslice) of
                Inl e \<Rightarrow> Inl e
              | Inr idx \<Rightarrow>
                  if True \<notin> set idx then Inr (Fin (- 9999))
                  else (case bool_index vslice idx of
                          Inl e \<Rightarrow> Inl e
                        | Inr kept \<Rightarrow> Inr (fmean kept)))
         | Some m \<Rightarrow>
             (case np_and (map (\<lambda>x. fne x m) vslice) validslice of
                Inl e \<Rightarrow> Inl e
              | Inr idx0 \<Rightarrow>
                  (case np_and idx0 (map (\<lambda>x. fgt x (Fin (- 999))) vslice) of
                     Inl e \<Rightarrow> Inl e
                   | Inr idx \<Rightarrow>
                       if True \<notin> set idx then Inr NaN
                       else (case bool_index vslice idx of
                               Inl e \<Rightarrow> Inl e
                             | Inr kept \<Rightarrow> Inr (fmean kept)))))"

text \<open>The loop \<^verbatim>\<open>for i in np.arange(n)\<close>, writing \<^verbatim>\<open>v[i]\<close>; an error stops it.\<close>

fun vector_loop ::
  "fval list \<Rightarrow> int \<Rightarrow> fval option \<Rightarrow> bool list \<Rightarrow> nat list \<Rightarrow> fval list
     \<Rightarrow> error + fval list" where
  "vector_loop v0 navg missing valid [] v = Inr v"
| "vector_loop v0 navg missing valid (i # is) v =
     (case vector_block v0 navg missing valid i of
        Inl e \<Rightarrow> Inl e
      | Inr x \<Rightarrow> vector_loop v0 navg missing valid is (v[i := x]))"

text \<open>
  \<^verbatim>\<open>_vector_average(v0, navg, missing=None, valid=None)\<close> on a one-dimensional array.
  \<^verbatim>\<open>v0.squeeze()\<close> removes every axis of length one, so a vector of length one becomes a
  zero-dimensional array and the assertion \<^verbatim>\<open>v0.ndim == 1\<close> fails. \<^verbatim>\<open>navg == 0\<close> divides by
  zero, and a negative number of blocks is refused by \<^verbatim>\<open>np.zeros\<close>. The validity mask is
  a vector of truth values (\<^verbatim>\<open>valid != 0\<close>); \<^verbatim>\<open>None\<close> stands for \<^verbatim>\<open>np.ones_like(v0)\<close>.
\<close>

definition valid_mask :: "bool list option \<Rightarrow> nat \<Rightarrow> bool list" where
  "valid_mask valid n = (case valid of None \<Rightarrow> replicate n True | Some vs \<Rightarrow> vs)"

definition vector_average ::
  "fval list \<Rightarrow> int \<Rightarrow> fval option \<Rightarrow> bool list option \<Rightarrow> error + fval list" where
  "vector_average v0 navg missing valid =
     (if length v0 = 1 then Inl AssertionError
      else if navg = 1 then Inr v0
      else if navg = 0 then Inl ZeroDivisionError
      else let n = int (length v0) div navg in
        if n < 0 then Inl ValueError
        else vector_loop v0 navg missing (valid_mask valid (length v0))
               [0 ..< nat n] (replicate (nat n) (Fin 0)))"

subsection \<open>Two-dimensional arrays\<close>

text \<open>An array of shape \<open>(length (rows a), ncols a)\<close>: one row per shot. The number of
  columns is kept apart, since an array with no row still has one.\<close>

record array2 =
  ncols :: nat
  rows :: "fval list list"

definition wf_array2 :: "array2 \<Rightarrow> bool" where
  "wf_array2 a = list_all (\<lambda>r. length r = ncols a) (rows a)"

text \<open>\<^verbatim>\<open>a0.squeeze()\<close> keeps both axes only when neither has length one.\<close>

definition squeezed_ndim2 :: "array2 \<Rightarrow> nat" where
  "squeezed_ndim2 a = (if length (rows a) = 1 then 0 else 1) + (if ncols a = 1 then 0 else 1)"

subsection \<open>\<^verbatim>\<open>_array_average\<close>\<close>

text \<open>
  One column of a block, without a sentinel: \<^verbatim>\<open>npts\<close> counts the samples \<^verbatim>\<open>> -999.\<close>, the
  samples \<^verbatim>\<open>< -999.\<close> are set to zero, the sum is divided by \<^verbatim>\<open>npts\<close>, and a column with
  \<^verbatim>\<open>npts == 0\<close> is \<^verbatim>\<open>-9999.\<close>.
\<close>

definition column_average :: "fval list \<Rightarrow> fval" where
  "column_average col =
     (let npts = length (filter (\<lambda>x. fgt x (Fin (- 999))) col);
          zeroed = map (\<lambda>x. if flt x (Fin (- 999)) then Fin 0 else x) col;
          asliceavg = fdiv (fsum zeroed) (Fin (real npts))
      in if npts = 0 then Fin (- 9999) else asliceavg)"

text \<open>
  The row of block \<open>i\<close>. With a sentinel the source calls \<^verbatim>\<open>np.ma.mean\<close> with the keyword
  \<^verbatim>\<open>weights\<close>, which \<^verbatim>\<open>mean\<close> does not take: the call raises TypeError.
\<close>

definition array_block ::
  "array2 \<Rightarrow> int \<Rightarrow> bool list \<Rightarrow> fval option \<Rightarrow> nat \<Rightarrow> error + fval list" where
  "array_block a0 navg valid missing i =
     (let n0 = int i * navg;
          aslice = py_slice (rows a0) n0 (n0 + navg - 1);
          validslice = py_slice valid n0 (n0 + navg - 1)
      in case missing of
           None \<Rightarrow>
             if True \<notin> set validslice then Inr (replicate (ncols a0) (Fin (- 9999)))
             else (case bool_index aslice validslice of
                     Inl e \<Rightarrow> Inl e
                   | Inr kept \<Rightarrow>
                       Inr (map (\<lambda>c. column_average (map (\<lambda>r. r ! c) kept)) [0 ..< ncols a0]))
         | Some m \<Rightarrow> Inl TypeError)"

fun array_loop ::
  "(nat \<Rightarrow> error + fval list) \<Rightarrow> nat list \<Rightarrow> fval list list \<Rightarrow> error + fval list list" where
  "array_loop block [] a = Inr a"
| "array_loop block (i # is) a =
     (case block i of
        Inl e \<Rightarrow> Inl e
      | Inr r \<Rightarrow> array_loop block is (a[i := r]))"

text \<open>
  \<^verbatim>\<open>_array_average(a0, navg, weighted=False, valid=None, missing=None)\<close>. The triangular
  weights are built when \<^verbatim>\<open>weighted\<close> holds and \<^verbatim>\<open>navg\<close> is odd (\<^verbatim>\<open>np.zeros(navg)\<close> refuses a
  negative \<^verbatim>\<open>navg\<close>); they are read only by the call that raises TypeError, so they are
  not part of the result.
\<close>

definition array_average ::
  "array2 \<Rightarrow> int \<Rightarrow> bool \<Rightarrow> bool list option \<Rightarrow> fval option \<Rightarrow> error + array2" where
  "array_average a0 navg weighted valid missing =
     (if squeezed_ndim2 a0 \<noteq> 2 then Inl AssertionError
      else if navg = 1 then Inr a0
      else if weighted \<and> navg mod 2 = 1 \<and> navg < 0 then Inl ValueError
      else if navg = 0 then Inl ZeroDivisionError
      else let n = int (length (rows a0)) div navg in
        if n < 0 then Inl ValueError
        else (case array_loop
                     (array_block a0 navg (valid_mask valid (length (rows a0))) missing)
                     [0 ..< nat n] (replicate (nat n) (replicate (ncols a0) (Fin 0))) of
                Inl e \<Rightarrow> Inl e
              | Inr a \<Rightarrow> Inr \<lparr>ncols = ncols a0, rows = a\<rparr>))"

subsection \<open>\<^verbatim>\<open>_array_std\<close>\<close>

text \<open>\<^verbatim>\<open>np.std\<close> along the shots: the square root of the mean squared deviation from the
  mean.\<close>

definition column_std :: "fval list \<Rightarrow> fval" where
  "column_std col =
     (let m = fmean col
      in fsqrt (fmean (map (\<lambda>x. fmul (fabs (fsub x m)) (fabs (fsub x m))) col)))"

definition std_block :: "array2 \<Rightarrow> int \<Rightarrow> bool list \<Rightarrow> nat \<Rightarrow> error + fval list" where
  "std_block a0 navg valid i =
     (let n0 = int i * navg;
          aslice = py_slice (rows a0) n0 (n0 + navg - 1);
          validslice = py_slice valid n0 (n0 + navg - 1)
      in if True \<notin> set validslice then Inr (replicate (ncols a0) (Fin (- 9999)))
         else (case bool_index aslice validslice of
                 Inl e \<Rightarrow> Inl e
               | Inr kept \<Rightarrow>
                   Inr (map (\<lambda>c. column_std (map (\<lambda>r. r ! c) kept)) [0 ..< ncols a0])))"

definition zeros_like :: "array2 \<Rightarrow> array2" where
  "zeros_like a = \<lparr>ncols = ncols a, rows = map (map (\<lambda>x. Fin 0)) (rows a)\<rparr>"

definition array_std :: "array2 \<Rightarrow> int \<Rightarrow> bool list option \<Rightarrow> error + array2" where
  "array_std a0 navg valid =
     (if squeezed_ndim2 a0 \<noteq> 2 then Inl AssertionError
      else if navg = 1 then Inr (zeros_like a0)
      else if navg = 0 then Inl ZeroDivisionError
      else let n = int (length (rows a0)) div navg in
        if n < 0 then Inl ValueError
        else (case array_loop (std_block a0 navg (valid_mask valid (length (rows a0))))
                     [0 ..< nat n] (replicate (nat n) (replicate (ncols a0) (Fin 0))) of
                Inl e \<Rightarrow> Inl e
              | Inr a \<Rightarrow> Inr \<lparr>ncols = ncols a0, rows = a\<rparr>))"

subsection \<open>Blocks and survivors\<close>

text \<open>Block \<open>i\<close> covers the indices \<open>[i * navg, i * navg + navg - 1)\<close>.\<close>

definition block_indices :: "int \<Rightarrow> nat \<Rightarrow> nat list" where
  "block_indices navg i = [i * nat navg ..< i * nat navg + nat navg - 1]"

text \<open>The survivors of block \<open>i\<close>: without a sentinel, the members that are mask-valid and
  \<^verbatim>\<open>> -999\<close>; with a sentinel \<open>m\<close>, those that moreover differ from \<open>m\<close>.\<close>

definition survivors_plain :: "fval list \<Rightarrow> bool list \<Rightarrow> int \<Rightarrow> nat \<Rightarrow> fval list" where
  "survivors_plain v0 vd navg i =
     map (\<lambda>j. v0 ! j) (filter (\<lambda>j. vd ! j \<and> fgt (v0 ! j) (Fin (- 999))) (block_indices navg i))"

definition survivors_sentinel :: "fval list \<Rightarrow> bool list \<Rightarrow> fval \<Rightarrow> int \<Rightarrow> nat \<Rightarrow> fval list" where
  "survivors_sentinel v0 vd m navg i =
     map (\<lambda>j. v0 ! j)
       (filter (\<lambda>j. fne (v0 ! j) m \<and> vd ! j \<and> fgt (v0 ! j) (Fin (- 999))) (block_indices navg i))"

text \<open>The shots of block \<open>i\<close> that the mask keeps, and the samples of column \<open>c\<close> among them
  that are \<^verbatim>\<open>> -999\<close>.\<close>

definition kept_rows :: "array2 \<Rightarrow> bool list \<Rightarrow> int \<Rightarrow> nat \<Rightarrow> fval list list" where
  "kept_rows a0 vd navg i =
     map (\<lambda>j. rows a0 ! j) (filter (\<lambda>j. vd ! j) (block_indices navg i))"


section \<open>The vertical regridder\<close>

text \<open>
  \<^verbatim>\<open>np.interp(x, xp, fp)\<close> at one point, for sample points \<open>xp\<close> (taken as increasing) with
  values \<open>fp\<close>: to the left of \<open>xp[0]\<close> the value is \<open>fp[0]\<close>, to the right of \<open>xp[-1]\<close> it is
  \<open>fp[-1]\<close>, and between two sample points it is the line through them. \<open>j\<close> is the last
  index with \<open>xp[j] \<le> x\<close>. Coordinates are finite reals.
\<close>

definition interp_point :: "real \<Rightarrow> real list \<Rightarrow> fval list \<Rightarrow> fval" where
  "interp_point x xp fp =
     (if last xp < x then last fp
      else if x < hd xp then hd fp
      else let j = length (takeWhile (\<lambda>a. a \<le> x) xp) - 1 in
        if j = length xp - 1 then fp ! j
        else if xp ! j = x then fp ! j
        else fadd (fmul (fdiv (fsub (fp ! (j + 1)) (fp ! j)) (Fin (xp ! (j + 1) - xp ! j)))
                        (Fin (x - xp ! j)))
                  (fp ! j))"

text \<open>\<^verbatim>\<open>np.interp\<close> refuses an empty array of sample points and values of another length.\<close>

definition np_interp :: "real list \<Rightarrow> real list \<Rightarrow> fval list \<Rightarrow> error + fval list" where
  "np_interp xs xp fp =
     (if xp = [] then Inl ValueError
      else if length fp \<noteq> length xp then Inl ValueError
      else Inr (map (\<lambda>x. interp_point x xp fp) xs))"

text \<open>\<^verbatim>\<open>_remap_y(z0, y0, y)\<close>: every row of \<open>z0\<close>, given on the coordinates \<open>y0\<close>, is
  interpolated at the coordinates \<open>y\<close>; \<^verbatim>\<open>np.flipud\<close> reverses coordinates and values.\<close>

fun remap_rows :: "fval list list \<Rightarrow> real list \<Rightarrow> real list \<Rightarrow> error + fval list list" where
  "remap_rows [] y0 y = Inr []"
| "remap_rows (r # rs) y0 y =
     (case np_interp y (rev y0) (rev r) of
        Inl e \<Rightarrow> Inl e
      | Inr zr \<Rightarrow> (case remap_rows rs y0 y of
                    Inl e \<Rightarrow> Inl e
                  | Inr zs \<Rightarrow> Inr (zr # zs)))"

definition remap_y :: "array2 \<Rightarrow> real list \<Rightarrow> real list \<Rightarrow> error + array2" where
  "remap_y z0 y0 y =
     (case remap_rows (rows z0) y0 y of
        Inl e \<Rightarrow> Inl e
      | Inr zs \<Rightarrow> Inr \<lparr>ncols = length y, rows = zs\<rparr>)"

section \<open>File objects and the profile accessor\<close>

text \<open>
  A variable of the HDF container is an array of at most two dimensions. The container is
  the external collaborator: it is modelled as the map from variable names to arrays that
  \<^verbatim>\<open>select\<close> and \<^verbatim>\<open>[:]\<close> read.
\<close>

datatype ndarray = Arr0 fval | Arr1 "fval list" | Arr2 array2

type_synonym sd = "string \<rightharpoonup> ndarray"

text \<open>The fields of \<^verbatim>\<open>_Cal\<close> that the modelled methods read: the container handle
  (\<^verbatim>\<open>None\<close> once closed) and the day/night code \<^verbatim>\<open>self.z\<close>. \<^verbatim>\<open>Cal1\<close> adds the RMS mask.\<close>

record cal =
  hdf :: "sd option"
  z :: string

record cal1 = cal +
  valid_rms_profiles :: "bool list option"

text \<open>\<^verbatim>\<open>_Cal.close\<close>: \<^verbatim>\<open>self.hdf.end()\<close>, then \<^verbatim>\<open>self.hdf = None\<close>. On a closed handle
  \<^verbatim>\<open>self.hdf\<close> is \<^verbatim>\<open>None\<close>, which has no attribute \<^verbatim>\<open>end\<close>.\<close>

definition close :: "'a cal_scheme \<Rightarrow> error + 'a cal_scheme" where
  "close c = (case hdf c of None \<Rightarrow> Inl AttributeError | Some h \<Rightarrow> Inr (c\<lparr>hdf := None\<rparr>))"

text \<open>\<^verbatim>\<open>ndarray.squeeze()\<close>: the axes of length one are removed.\<close>

fun squeeze :: "ndarray \<Rightarrow> ndarray" where
  "squeeze (Arr0 x) = Arr0 x"
| "squeeze (Arr1 xs) = (if length xs = 1 then Arr0 (hd xs) else Arr1 xs)"
| "squeeze (Arr2 a) =
     (if length (rows a) = 1 \<and> ncols a = 1 then Arr0 (hd (hd (rows a)))
      else if length (rows a) = 1 then Arr1 (hd (rows a))
      else if ncols a = 1 then Arr1 (map hd (rows a))
      else Arr2 a)"

text \<open>\<^verbatim>\<open>Cal1._read_sds\<close>: any failure of \<^verbatim>\<open>self.hdf.select\<close> (an unknown name, a closed
  handle) is caught and gives \<^verbatim>\<open>None\<close>; otherwise the whole variable, squeezed.\<close>

definition read_sds :: "'a cal1_scheme \<Rightarrow> string \<Rightarrow> ndarray option" where
  "read_sds c varname =
     (case hdf c of
        None \<Rightarrow> None
      | Some f \<Rightarrow> (case f varname of None \<Rightarrow> None | Some var \<Rightarrow> Some (squeeze var)))"

text \<open>\<^verbatim>\<open>np.size(var, 0)\<close>: the length of the first axis; \<^verbatim>\<open>None\<close> and a zero-dimensional
  array have none, and \<^verbatim>\<open>shape[0]\<close> raises IndexError.\<close>

fun np_size0 :: "ndarray option \<Rightarrow> error + nat" where
  "np_size0 None = Inl IndexError"
| "np_size0 (Some (Arr0 x)) = Inl IndexError"
| "np_size0 (Some (Arr1 xs)) = Inr (length xs)"
| "np_size0 (Some (Arr2 a)) = Inr (length (rows a))"

text \<open>What \<^verbatim>\<open>_read_var\<close> returns: the empty list, \<^verbatim>\<open>None\<close>, or an array.\<close>

datatype read_result = EmptyList | NoResult | Data ndarray

text \<open>
  \<^verbatim>\<open>Cal1._read_var(varname, navg, idx=None, missing=None)\<close>. The reducer is chosen by the
  dimension of the squeezed variable and is given the slice \<^verbatim>\<open>idx\<close> of the shot axis.
\<close>

definition read_var ::
  "'a cal1_scheme \<Rightarrow> string \<Rightarrow> int \<Rightarrow> (int \<times> int) option \<Rightarrow> fval option
     \<Rightarrow> error + read_result" where
  "read_var c varname navg idx missing =
     (if navg = 0 then Inr EmptyList
      else let var = read_sds c varname in
        case np_size0 var of
          Inl e \<Rightarrow> Inl e
        | Inr size0 \<Rightarrow>
            if int size0 < navg then Inr NoResult
            else (case var of
                    Some (Arr1 xs) \<Rightarrow>
                      (let data = (case idx of None \<Rightarrow> xs | Some (i0, i1) \<Rightarrow> py_slice xs i0 i1)
                       in if 1 < navg
                          then (case vector_average data navg missing (valid_rms_profiles c) of
                                  Inl e \<Rightarrow> Inl e
                                | Inr v \<Rightarrow> Inr (Data (Arr1 v)))
                          else Inr (Data (Arr1 data)))
                  | Some (Arr2 a) \<Rightarrow>
                      (let data = (case idx of None \<Rightarrow> a
                                   | Some (i0, i1) \<Rightarrow> a\<lparr>rows := py_slice (rows a) i0 i1\<rparr>)
                       in if 1 < navg
                          then (case array_average data navg False (valid_rms_profiles c) missing of
                                  Inl e \<Rightarrow> Inl e
                                | Inr v \<Rightarrow> Inr (Data (Arr2 v)))
                          else Inr (Data (Arr2 data)))
                  | _ \<Rightarrow> Inl IndexError))"

text \<open>The number of shots of a stored variable: the length of its first axis.\<close>

fun shots :: "ndarray \<Rightarrow> nat" where
  "shots (Arr0 x) = 0"
| "shots (Arr1 xs) = length xs"
| "shots (Arr2 a) = length (rows a)"

section \<open>The time decoder\<close>

text \<open>
  A UTC time is the decimal number \<open>YYMMDD.ffffff\<close>; it is modelled as a real.
  \<^verbatim>\<open>_decdate_to_ymd\<close> of \<^verbatim>\<open>Cal2.datetime2\<close>, which \<^verbatim>\<open>Cal2.datetime\<close> computes inline in the
  same way.
\<close>

definition decdate_to_ymd :: "real \<Rightarrow> int \<times> int \<times> int" where
  "decdate_to_ymd decdate =
     (let year = \<lfloor>decdate / 10000\<rfloor>;
          remainder = decdate - of_int year * 10000;
          month = \<lfloor>remainder / 100\<rfloor>;
          day = \<lfloor>remainder - of_int month * 100\<rfloor>
      in (year + 2000, month, day))"

text \<open>\<^verbatim>\<open>int(x)\<close> truncates towards zero.\<close>

definition py_int :: "real \<Rightarrow> int" where
  "py_int x = (if 0 \<le> x then \<lfloor>x\<rfloor> else \<lceil>x\<rceil>)"

definition seconds_into_day :: "real \<Rightarrow> int" where
  "seconds_into_day u = py_int ((u - of_int \<lfloor>u\<rfloor>) * 24 * 3600)"

text \<open>\<^verbatim>\<open>datetime.datetime(y, m, d, 0, 0, 0)\<close> raises ValueError unless the date exists.\<close>

definition days_in_month :: "int \<Rightarrow> int \<Rightarrow> int" where
  "days_in_month y m =
     (if m = 2 then (if y mod 4 = 0 \<and> (y mod 100 \<noteq> 0 \<or> y mod 400 = 0) then 29 else 28)
      else if m = 4 \<or> m = 6 \<or> m = 9 \<or> m = 11 then 30 else 31)"

definition valid_date :: "int \<Rightarrow> int \<Rightarrow> int \<Rightarrow> bool" where
  "valid_date y m d =
     (1 \<le> y \<and> y \<le> 9999 \<and> 1 \<le> m \<and> m \<le> 12 \<and> 1 \<le> d \<and> d \<le> days_in_month y m)"

text \<open>
  A timestamp is midnight of a date plus a number of seconds. The decoder only adds
  \<^verbatim>\<open>seconds_into_day\<close>, which lies in \<open>[0, 86400)\<close>, so the date is never carried over and
  equal timestamps have equal fields.
\<close>

record timestamp =
  ts_year :: int
  ts_month :: int
  ts_day :: int
  ts_seconds :: int

definition midnight_plus :: "int \<times> int \<times> int \<Rightarrow> int \<Rightarrow> error + timestamp" where
  "midnight_plus ymd s =
     (case ymd of (y, m, d) \<Rightarrow>
        if valid_date y m d
        then Inr \<lparr>ts_year = y, ts_month = m, ts_day = d, ts_seconds = s\<rparr>
        else Inl ValueError)"

text \<open>\<^verbatim>\<open>Cal2.datetime\<close>: every sample is decoded on its own; the first date that does not
  exist raises.\<close>

fun datetime :: "real list \<Rightarrow> error + timestamp list" where
  "datetime [] = Inr []"
| "datetime (u # utc) =
     (case midnight_plus (decdate_to_ymd u) (seconds_into_day u) of
        Inl e \<Rightarrow> Inl e
      | Inr t \<Rightarrow> (case datetime utc of Inl e \<Rightarrow> Inl e | Inr ts \<Rightarrow> Inr (t # ts)))"

text \<open>
  \<^verbatim>\<open>Cal2.datetime2\<close>. \<^verbatim>\<open>utc[0]\<close> raises IndexError on an empty sequence. The test
  \<^verbatim>\<open>d0 == d1\<close> compares the days of the month of the first and the last sample; when they
  are equal the date of the first sample is built once and shared by all samples.
\<close>

definition single_date_test :: "real list \<Rightarrow> bool" where
  "single_date_test utc =
     (snd (snd (decdate_to_ymd (hd utc))) = snd (snd (decdate_to_ymd (last utc))))"

definition datetime2 :: "real list \<Rightarrow> error + timestamp list" where
  "datetime2 utc =
     (if utc = [] then Inl IndexError
      else if single_date_test utc
      then (case midnight_plus (decdate_to_ymd (hd utc)) 0 of
              Inl e \<Rightarrow> Inl e
            | Inr t0 \<Rightarrow> Inr (map (\<lambda>u. t0\<lparr>ts_seconds := seconds_into_day u\<rparr>) utc))
      else datetime utc)"

section \<open>The calibration engine\<close>

text \<open>
  The module tables \<^verbatim>\<open>atb_max\<close> and \<^verbatim>\<open>iatb_bounds\<close>, keyed by the day/night code. The
  literals \<^verbatim>\<open>1e-4\<close>, \<^verbatim>\<open>1e-5\<close>, \<^verbatim>\<open>8e-5\<close> and \<^verbatim>\<open>8e-3\<close> are not binary fractions: each entry is
  the exact value of the double that the literal denotes.
\<close>

definition atb_max :: "string \<rightharpoonup> real" where
  "atb_max = [''ZN'' \<mapsto> 7378697629483821 / 73786976294838206464, ''ZD'' \<mapsto> 1]"

definition iatb_bounds :: "string \<rightharpoonup> real \<times> real" where
  "iatb_bounds =
     [''ZN'' \<mapsto> (5902958103587057 / 590295810358705651712,
                5902958103587057 / 73786976294838206464),
      ''ZD'' \<mapsto> (- (1152921504606847 / 144115188075855872),
                1152921504606847 / 144115188075855872)]"

text \<open>
  Arrays are objects that caller and callee share: a heap is the list of the arrays that
  exist, and a reference is an index of it. Rebinding a name to a new array (as
  \<^verbatim>\<open>ma.masked_invalid\<close> does) leaves the heap as it is; an indexed assignment changes the
  array at the reference.
\<close>

type_synonym heap = "array2 list"

text \<open>\<^verbatim>\<open>atb[np.abs(atb) > amax] = np.nan\<close> and \<^verbatim>\<open>mol[mol < 0] = np.nan\<close>.\<close>

definition screen_atb :: "real \<Rightarrow> array2 \<Rightarrow> array2" where
  "screen_atb amax a =
     a\<lparr>rows := map (map (\<lambda>x. if fgt (fabs x) (Fin amax) then NaN else x)) (rows a)\<rparr>"

definition screen_mol :: "array2 \<Rightarrow> array2" where
  "screen_mol a = a\<lparr>rows := map (map (\<lambda>x. if flt x (Fin 0) then NaN else x)) (rows a)\<rparr>"

text \<open>\<^verbatim>\<open>ma.masked_invalid\<close>: NaN and the infinities are masked (\<open>None\<close>).\<close>

fun masked_invalid :: "fval \<Rightarrow> real option" where
  "masked_invalid (Fin x) = Some x"
| "masked_invalid _ = None"

text \<open>\<^verbatim>\<open>ma.mean\<close> along one axis: the mean of the entries that are not masked, and masked when
  there is none.\<close>

definition ma_mean :: "real option list \<Rightarrow> real option" where
  "ma_mean xs =
     (let vs = List.map_filter id xs
      in if vs = [] then None else Some (sum_list vs / real (length vs)))"

text \<open>
  The quotient \<^verbatim>\<open>ma.mean(atbslice[idx]) / ma.mean(molslice)\<close> as it is stored into
  \<^verbatim>\<open>coef[i]\<close>. \<^verbatim>\<open>ma.mean\<close> of a window gives a plain float when one entry at least is
  valid, and no value otherwise (the masked constant, or NaN for an empty array without a
  mask). Two plain floats are divided as floats: a zero divisor gives an infinity, and NaN
  for \<open>0 / 0\<close>. A quotient with an operand that has no value has none, and the float array
  stores it as NaN.
\<close>

fun mean_ratio :: "real option \<Rightarrow> real option \<Rightarrow> fval" where
  "mean_ratio (Some x) (Some y) = fdiv (Fin x) (Fin y)"
| "mean_ratio _ _ = NaN"

text \<open>\<^verbatim>\<open>ma.mean(a[:, idx], axis=1)\<close> with \<^verbatim>\<open>idx = (alt >= zmin) & (alt <= zmax)\<close>: one
  masked scalar per profile. The boolean index must have the length of the rows.\<close>

fun calib_profile :: "fval list list \<Rightarrow> bool list \<Rightarrow> error + real option list" where
  "calib_profile [] idx = Inr []"
| "calib_profile (r # rs) idx =
     (case bool_index r idx of
        Inl e \<Rightarrow> Inl e
      | Inr band \<Rightarrow>
          (case calib_profile rs idx of
             Inl e \<Rightarrow> Inl e
           | Inr ms \<Rightarrow> Inr (ma_mean (map masked_invalid band) # ms)))"

definition band_means :: "array2 \<Rightarrow> bool list \<Rightarrow> error + real option list" where
  "band_means a idx =
     (if length idx \<noteq> ncols a then Inl IndexError else calib_profile (rows a) idx)"

text \<open>\<^verbatim>\<open>xs[idxh]\<close> with an array of indices, none of them negative here.\<close>

fun take_indices :: "'a list \<Rightarrow> int list \<Rightarrow> error + 'a list" where
  "take_indices xs [] = Inr []"
| "take_indices xs (j # js) =
     (if j < 0 \<or> int (length xs) \<le> j then Inl IndexError
      else (case take_indices xs js of
              Inl e \<Rightarrow> Inl e
            | Inr ys \<Rightarrow> Inr (xs ! nat j # ys)))"

text \<open>
  One turn of the loop over the profiles: the window \<^verbatim>\<open>np.r_[max(0, i - navgh) :
  min(nprof - 1, i + navgh)]\<close>, the values of the window inside the bounds, and the ratio of
  the two means. A masked value of the window stays masked whether the index selects it or
  not, so it never enters a mean.
\<close>

definition coef_at ::
  "real option list \<Rightarrow> real option list \<Rightarrow> real \<times> real \<Rightarrow> nat \<Rightarrow> int \<Rightarrow> nat \<Rightarrow> error + fval" where
  "coef_at atb_calib_profile mol_calib_profile atbbounds nprof navgh i =
     (let idxh = [max 0 (int i - navgh) .. min (int nprof - 1) (int i + navgh) - 1]
      in case take_indices atb_calib_profile idxh of
           Inl e \<Rightarrow> Inl e
         | Inr atbslice \<Rightarrow>
             (case take_indices mol_calib_profile idxh of
                Inl e \<Rightarrow> Inl e
              | Inr molslice \<Rightarrow>
                  Inr (mean_ratio
                         (ma_mean (filter (\<lambda>x. case x of None \<Rightarrow> False
                                            | Some v \<Rightarrow> fst atbbounds < v \<and> v < snd atbbounds)
                                     atbslice))
                         (ma_mean molslice))))"

fun coef_loop :: "(nat \<Rightarrow> error + fval) \<Rightarrow> nat list \<Rightarrow> fval list \<Rightarrow> error + fval list" where
  "coef_loop body [] coef = Inr coef"
| "coef_loop body (i # is) coef =
     (case body i of
        Inl e \<Rightarrow> Inl e
      | Inr x \<Rightarrow> coef_loop body is (coef[i := x]))"

text \<open>
  \<^verbatim>\<open>Cal1.mol_calibration_coef\<close>, called with the arrays \<^verbatim>\<open>mol\<close> and \<^verbatim>\<open>atb\<close> (references into
  the heap). It returns the coefficients and the heap it leaves behind: the two screenings
  are indexed assignments into the caller's arrays.
\<close>

definition mol_calibration_coef ::
  "'a cal_scheme \<Rightarrow> nat \<Rightarrow> nat \<Rightarrow> real list \<Rightarrow> int \<Rightarrow> real \<Rightarrow> real \<Rightarrow> heap
     \<Rightarrow> error + (fval list \<times> heap)" where
  "mol_calibration_coef self mol atb alt navgh zmin zmax h =
     (case atb_max (z self) of
        None \<Rightarrow> Inl KeyError
      | Some amax \<Rightarrow>
          let h1 = h[atb := screen_atb amax (h ! atb)];
              h2 = h1[mol := screen_mol (h1 ! mol)];
              idx = map (\<lambda>a. zmin \<le> a \<and> a \<le> zmax) alt
          in case band_means (h2 ! atb) idx of
               Inl e \<Rightarrow> Inl e
             | Inr atb_calib_profile \<Rightarrow>
                 (case band_means (h2 ! mol) idx of
                    Inl e \<Rightarrow> Inl e
                  | Inr mol_calib_profile \<Rightarrow>
                      (case iatb_bounds (z self) of
                         None \<Rightarrow> Inl KeyError
                       | Some atbbounds \<Rightarrow>
                           let nprof = length (rows (h2 ! mol))
                           in case coef_loop
                                     (coef_at atb_calib_profile mol_calib_profile atbbounds
                                        nprof navgh)
                                     [0 ..< nprof] (replicate nprof (Fin 0)) of
                                Inl e \<Rightarrow> Inl e
                              | Inr coef \<Rightarrow> Inr (coef, h2))))"

text \<open>
  \<^verbatim>\<open>_remap_y\<close> applied to what \<^verbatim>\<open>_read_var\<close> returned: the empty list and an empty vector
  have no row and give an array without rows; \<^verbatim>\<open>None\<close>, a zero-dimensional array and a
  vector with elements cannot be indexed as \<^verbatim>\<open>z0[i, :]\<close>.
\<close>

fun remap_result :: "read_result \<Rightarrow> real list \<Rightarrow> real list \<Rightarrow> error + array2" where
  "remap_result EmptyList y0 y = Inr \<lparr>ncols = length y, rows = []\<rparr>"
| "remap_result NoResult y0 y = Inl IndexError"
| "remap_result (Data (Arr0 x)) y0 y = Inl IndexError"
| "remap_result (Data (Arr1 xs)) y0 y =
     (if xs = [] then Inr \<lparr>ncols = length y, rows = []\<rparr> else Inl IndexError)"
| "remap_result (Data (Arr2 a)) y0 y = remap_y a y0 y"

text \<open>\<^verbatim>\<open>Cal1.mol_on_lidar_alt\<close> and \<^verbatim>\<open>Cal1.atb\<close>, for \<^verbatim>\<open>prof=None\<close>.\<close>

definition mol_on_lidar_alt ::
  "'a cal1_scheme \<Rightarrow> int \<Rightarrow> real list \<Rightarrow> real list \<Rightarrow> (int \<times> int) option \<Rightarrow> error + array2" where
  "mol_on_lidar_alt self navg alt metalt idx =
     (case read_var self ''Molecular_Number_Density'' navg idx None of
        Inl e \<Rightarrow> Inl e
      | Inr mol0 \<Rightarrow> remap_result mol0 metalt alt)"

definition atb_read :: "'a cal1_scheme \<Rightarrow> int \<Rightarrow> (int \<times> int) option \<Rightarrow> error + read_result" where
  "atb_read self navg idx = read_var self ''Total_Attenuated_Backscatter_532'' navg idx None"

text \<open>
  \<^verbatim>\<open>Cal1.mol_on_lidar_alt_calibrated\<close>, for \<^verbatim>\<open>prof=None\<close>. The molecular field is a new
  array; \<^verbatim>\<open>atb\<close> is the caller's array when one is passed, and a new array read from the
  file otherwise (only a two-dimensional array can be screened and reduced by
  \<^verbatim>\<open>mol_calibration_coef\<close>). \<^verbatim>\<open>alt\<close> is not passed on: \<^verbatim>\<open>mol_calibration_coef\<close> works on
  its default, the module's grid \<^verbatim>\<open>lidar_alt\<close>, which is a parameter here. The result is the
  reference of the molecular field, scaled in place profile by profile.
\<close>

definition mol_on_lidar_alt_calibrated ::
  "'a cal1_scheme \<Rightarrow> real list \<Rightarrow> int \<Rightarrow> real list \<Rightarrow> int \<Rightarrow> real list
     \<Rightarrow> (int \<times> int) option \<Rightarrow> real \<times> real \<Rightarrow> nat option \<Rightarrow> heap \<Rightarrow> error + (nat \<times> heap)" where
  "mol_on_lidar_alt_calibrated self lidar_alt navg alt navgh metalt idx zcal atb h =
     (case mol_on_lidar_alt self navg alt metalt idx of
        Inl e \<Rightarrow> Inl e
      | Inr molarr \<Rightarrow>
          let mol = length h; h1 = h @ [molarr]
          in case (case atb of
                     Some r \<Rightarrow> Inr (r, h1)
                   | None \<Rightarrow>
                       (case atb_read self navg idx of
                          Inl e \<Rightarrow> Inl e
                        | Inr (Data (Arr2 a)) \<Rightarrow> Inr (length h1, h1 @ [a])
                        | Inr (Data _) \<Rightarrow> Inl IndexError
                        | Inr _ \<Rightarrow> Inl TypeError)) of
               Inl e \<Rightarrow> Inl e
             | Inr (atbref, h2) \<Rightarrow>
                 (case mol_calibration_coef self mol atbref lidar_alt navgh (fst zcal) (snd zcal) h2 of
                    Inl e \<Rightarrow> Inl e
                  | Inr (coef, h3) \<Rightarrow>
                      Inr (mol, h3[mol := (h3 ! mol)\<lparr>rows :=
                                     map2 (\<lambda>r c. map (\<lambda>x. fmul x c) r) (rows (h3 ! mol)) coef\<rparr>])))"

subsection \<open>The coefficient in the words of the specification\<close>

text \<open>
  The reference-band value of one profile: the mean of its entries that are valid after
  screening, over the levels whose altitude lies in \<open>[zmin, zmax]\<close>. The window of profile
  \<open>i\<close> is the index range \<open>[max(0, i - navgh), min(nprof - 1, i + navgh))\<close>. The coefficient
  is the mean of the reference-band \<open>atb\<close> values of the window that lie strictly inside the
  bounds, divided by the mean of the reference-band \<open>mol\<close> values of the window. It is NaN
  when one of the two means has no value to average; a zero divisor is left to the
  floating-point division, which gives an infinity, or NaN for \<open>0 / 0\<close>.
\<close>

definition mean :: "real list \<Rightarrow> real" where
  "mean vs = sum_list vs / real (length vs)"

definition ref_band_mean :: "real list \<Rightarrow> real \<Rightarrow> real \<Rightarrow> fval list \<Rightarrow> real option" where
  "ref_band_mean alt zmin zmax row =
     (let vs = List.map_filter (\<lambda>k. masked_invalid (row ! k))
                 (filter (\<lambda>k. zmin \<le> alt ! k \<and> alt ! k \<le> zmax) [0 ..< length alt])
      in if vs = [] then None else Some (mean vs))"

definition window :: "nat \<Rightarrow> int \<Rightarrow> nat \<Rightarrow> nat list" where
  "window nprof navgh i =
     [nat (max 0 (int i - navgh)) ..< nat (min (int nprof - 1) (int i + navgh))]"

definition window_kept :: "(nat \<Rightarrow> real option) \<Rightarrow> real \<Rightarrow> real \<Rightarrow> nat list \<Rightarrow> real list" where
  "window_kept A lo hi w =
     List.map_filter (\<lambda>j. case A j of None \<Rightarrow> None
                         | Some v \<Rightarrow> if lo < v \<and> v < hi then Some v else None) w"

definition window_mols :: "(nat \<Rightarrow> real option) \<Rightarrow> nat list \<Rightarrow> real list" where
  "window_mols M w = List.map_filter M w"

definition window_coef ::
  "(nat \<Rightarrow> real option) \<Rightarrow> (nat \<Rightarrow> real option) \<Rightarrow> real \<Rightarrow> real \<Rightarrow> nat list \<Rightarrow> fval" where
  "window_coef A M lo hi w =
     (let kept = window_kept A lo hi w;
          mols = window_mols M w
      in if kept = [] \<or> mols = [] then NaN
         else fdiv (Fin (mean kept)) (Fin (mean mols)))"

section \<open>Properties of the vector reducer\<close>

lemma py_slice_range:
  assumes "0 \<le> a" "a \<le> b" "nat b \<le> length xs"
  shows "py_slice xs a b = map (\<lambda>j. xs ! j) [nat a ..< nat b]"
proof -
  have "py_slice xs a b = take (nat b - nat a) (drop (nat a) xs)"
  proof -
    have "b \<le> int (length xs)" using assms by linarith
    then show ?thesis
      using assms by (simp add: py_slice_def Let_def min_def nat_diff_distrib)
  qed
  also have "\<dots> = map (\<lambda>j. xs ! j) [nat a ..< nat b]"
    using assms by (intro nth_equalityI) (auto simp: nat_le_eq_zle)
  finally show ?thesis .
qed

lemma block_bounds:
  assumes "2 \<le> navg" "int i < int N div navg"
  shows "0 \<le> int i * navg" "int i * navg \<le> int i * navg + navg - 1"
    "nat (int i * navg + navg - 1) \<le> N"
    "nat (int i * navg) = i * nat navg"
    "nat (int i * navg + navg - 1) = i * nat navg + nat navg - 1"
proof -
  obtain k where k: "navg = int k" "2 \<le> k"
    using assms(1) by (metis nat_0_le nat_le_iff order_trans zero_le_numeral nat_numeral)
  have "i < N div k" using assms(2) k by (simp add: zdiv_int[symmetric])
  then have "Suc i * k \<le> N"
    using k by (simp add: less_eq_div_iff_mult_less_eq Suc_le_eq[symmetric] del: mult_Suc)
  then have le: "i * k + k \<le> N" by simp
  show "0 \<le> int i * navg" using k by simp
  show "int i * navg \<le> int i * navg + navg - 1" using k by simp
  have e: "int i * navg + navg - 1 = int (i * k + k - 1)" using k by (simp add: of_nat_diff)
  show "nat (int i * navg + navg - 1) \<le> N" unfolding e using le by simp
  show "nat (int i * navg) = i * nat navg" using k by (simp add: nat_mult_distrib)
  show "nat (int i * navg + navg - 1) = i * nat navg + nat navg - 1"
    unfolding e nat_int using k by simp
qed

lemma np_and_map:
  "np_and (map g js) (map h js) = Inr (map (\<lambda>j. g j \<and> h j) js)"
  by (simp add: np_and_def map2_map_map)

lemma bool_index_map:
  "bool_index (map f js) (map P js) = Inr (map f (filter P js))"
proof -
  have "map fst (filter snd (zip (map f js) (map P js))) = map f (filter P js)"
    by (induction js) auto
  then show ?thesis by (simp add: bool_index_def)
qed

lemma True_in_map: "True \<in> set (map P js) \<longleftrightarrow> filter P js \<noteq> []"
  by (induction js) auto

lemma block_slices:
  assumes "2 \<le> navg" "int i < int (length xs) div navg"
  shows "py_slice xs (int i * navg) (int i * navg + navg - 1)
           = map (\<lambda>j. xs ! j) (block_indices navg i)"
  using block_bounds[OF assms] py_slice_range[of "int i * navg" "int i * navg + navg - 1" xs]
  by (simp add: block_indices_def)

lemma vector_block_None:
  assumes "2 \<le> navg" "int i < int (length v0) div navg" "length vd = length v0"
  shows "vector_block v0 navg None vd i =
           Inr (let S = map (\<lambda>j. v0 ! j)
                          (filter (\<lambda>j. vd ! j \<and> fgt (v0 ! j) (Fin (- 999))) (block_indices navg i))
                in if S = [] then Fin (- 9999) else fmean S)"
proof -
  have a: "py_slice v0 (int i * navg) (int i * navg + navg - 1)
             = map (\<lambda>j. v0 ! j) (block_indices navg i)"
    using assms(1,2) by (rule block_slices)
  have b: "py_slice vd (int i * navg) (int i * navg + navg - 1)
             = map (\<lambda>j. vd ! j) (block_indices navg i)"
    using assms by (intro block_slices) simp_all
  show ?thesis
    unfolding vector_block_def Let_def a b map_map o_def np_and_map
    by (simp add: True_in_map bool_index_map del: set_map)
qed

lemma vector_block_Some:
  assumes "2 \<le> navg" "int i < int (length v0) div navg" "length vd = length v0"
  shows "vector_block v0 navg (Some m) vd i =
           Inr (let S = map (\<lambda>j. v0 ! j)
                          (filter (\<lambda>j. (fne (v0 ! j) m \<and> vd ! j) \<and> fgt (v0 ! j) (Fin (- 999)))
                             (block_indices navg i))
                in if S = [] then NaN else fmean S)"
proof -
  have a: "py_slice v0 (int i * navg) (int i * navg + navg - 1)
             = map (\<lambda>j. v0 ! j) (block_indices navg i)"
    using assms(1,2) by (rule block_slices)
  have b: "py_slice vd (int i * navg) (int i * navg + navg - 1)
             = map (\<lambda>j. vd ! j) (block_indices navg i)"
    using assms by (intro block_slices) simp_all
  show ?thesis
    unfolding vector_block_def Let_def a b map_map o_def np_and_map
    by (simp add: True_in_map bool_index_map np_and_map del: set_map)
qed

lemma vector_loop_total:
  assumes "\<And>i. i \<in> set js \<Longrightarrow> vector_block v0 navg m vd i = Inr (f i)"
  shows "vector_loop v0 navg m vd js v = Inr (fold (\<lambda>i v. v[i := f i]) js v)"
  using assms by (induction js arbitrary: v) auto

lemma fold_update_upt_gen:
  "n \<le> length v \<Longrightarrow> fold (\<lambda>i v. v[i := f i]) [0..<n] v = map f [0..<n] @ drop n v"
proof (induction n)
  case 0 then show ?case by simp
next
  case (Suc n)
  then have "drop n v = v ! n # drop (Suc n) v"
    by (simp add: Cons_nth_drop_Suc)
  with Suc show ?case by (simp add: list_update_append)
qed

lemma fold_update_upt:
  "length v = n \<Longrightarrow> fold (\<lambda>i v. v[i := f i]) [0..<n] v = map f [0..<n]"
  by (simp add: fold_update_upt_gen)

lemma nat_div_int: "0 < navg \<Longrightarrow> nat (int N div navg) = N div nat navg"
  by (metis nat_int zdiv_int int_nat_eq less_le_not_le linorder_le_cases)

lemma vector_average_blocks:
  assumes "2 \<le> navg" "length v0 \<noteq> 1" "length (valid_mask valid (length v0)) = length v0"
    and "\<And>i. int i < int (length v0) div navg \<Longrightarrow>
           vector_block v0 navg m (valid_mask valid (length v0)) i = Inr (f i)"
  shows "vector_average v0 navg m valid = Inr (map f [0 ..< nat (int (length v0) div navg)])"
proof -
  let ?n = "int (length v0) div navg"
  have n0: "0 \<le> ?n" using assms(1) by (simp add: pos_imp_zdiv_nonneg_iff)
  have "vector_loop v0 navg m (valid_mask valid (length v0)) [0 ..< nat ?n] (replicate (nat ?n) (Fin 0))
        = Inr (fold (\<lambda>i v. v[i := f i]) [0 ..< nat ?n] (replicate (nat ?n) (Fin 0)))"
    by (rule vector_loop_total) (use assms(4) n0 in auto)
  also have "\<dots> = Inr (map f [0 ..< nat ?n])"
    by (simp add: fold_update_upt)
  finally show ?thesis
    using assms(1,2) n0 by (simp add: vector_average_def Let_def)
qed

lemma vector_average_plain:
  assumes "2 \<le> navg" "length v0 \<noteq> 1" "length (valid_mask valid (length v0)) = length v0"
  shows "vector_average v0 navg None valid =
           Inr (map (\<lambda>i. if survivors_plain v0 (valid_mask valid (length v0)) navg i = []
                          then Fin (- 9999)
                          else fmean (survivors_plain v0 (valid_mask valid (length v0)) navg i))
                  [0 ..< nat (int (length v0) div navg)])"
  using assms
  by (intro vector_average_blocks) (simp_all add: vector_block_None survivors_plain_def Let_def)

lemma vector_average_sentinel:
  assumes "2 \<le> navg" "length v0 \<noteq> 1" "length (valid_mask valid (length v0)) = length v0"
  shows "vector_average v0 navg (Some m) valid =
           Inr (map (\<lambda>i. if survivors_sentinel v0 (valid_mask valid (length v0)) m navg i = []
                          then NaN
                          else fmean (survivors_sentinel v0 (valid_mask valid (length v0)) m navg i))
                  [0 ..< nat (int (length v0) div navg)])"
  using assms
  by (intro vector_average_blocks)
     (simp_all add: vector_block_Some survivors_sentinel_def Let_def conj_assoc)

lemma survivors_sentinel_subset:
  "survivors_plain v0 vd navg i = [] \<Longrightarrow> survivors_sentinel v0 vd m navg i = []"
  by (auto simp: survivors_plain_def survivors_sentinel_def filter_empty_conv)

lemma fmean_single:
  assumes "fgt v (Fin (- 999))"
  shows "fmean [v] = v"
  using assms by (cases v) (simp_all add: fmean_def fsum_def fgt_def)

lemma length_block_indices: "length (block_indices navg i) = nat navg - 1"
  by (simp add: block_indices_def)

lemma block_indices_in_range:
  assumes "2 \<le> navg" "int i < int N div navg" "j \<in> set (block_indices navg i)"
  shows "j < N"
  using block_bounds(3,5)[OF assms(1,2)] assms(3) by (auto simp: block_indices_def)

lemma survivors_plain_replicate:
  assumes "2 \<le> navg" "int i < int N div navg" "fgt v (Fin (- 999))"
  shows "survivors_plain (replicate N v) (replicate N True) navg i = replicate (nat navg - 1) v"
proof -
  have "filter (\<lambda>j. replicate N True ! j \<and> fgt (replicate N v ! j) (Fin (- 999)))
          (block_indices navg i) = block_indices navg i"
    using block_indices_in_range[OF assms(1,2)] assms(3) by (auto simp: filter_id_conv)
  moreover have "map (\<lambda>j. replicate N v ! j) (block_indices navg i)
                   = replicate (nat navg - 1) v"
  proof -
    have "map (\<lambda>j. replicate N v ! j) (block_indices navg i)
            = map (\<lambda>j. v) (block_indices navg i)"
      using block_indices_in_range[OF assms(1,2)] by (intro map_cong) auto
    then show ?thesis by (simp add: map_replicate_const length_block_indices)
  qed
  ultimately show ?thesis by (simp add: survivors_plain_def)
qed

lemma survivors_plain_cong:
  assumes "\<And>j. j \<in> set (block_indices navg i) \<Longrightarrow> v0' ! j = v0 ! j \<and> vd' ! j = vd ! j"
  shows "survivors_plain v0' vd' navg i = survivors_plain v0 vd navg i"
proof -
  have "filter (\<lambda>j. vd' ! j \<and> fgt (v0' ! j) (Fin (- 999))) (block_indices navg i)
        = filter (\<lambda>j. vd ! j \<and> fgt (v0 ! j) (Fin (- 999))) (block_indices navg i)"
    using assms by (intro filter_cong) auto
  moreover have "map (\<lambda>j. v0' ! j) (filter (\<lambda>j. vd ! j \<and> fgt (v0 ! j) (Fin (- 999))) (block_indices navg i))
        = map (\<lambda>j. v0 ! j) (filter (\<lambda>j. vd ! j \<and> fgt (v0 ! j) (Fin (- 999))) (block_indices navg i))"
    using assms by (intro map_cong) auto
  ultimately show ?thesis by (simp add: survivors_plain_def)
qed

lemma vector_average_constant:
  assumes "2 \<le> navg" "N \<noteq> 1" "fgt v (Fin (- 999))"
  shows "vector_average (replicate N v) navg None None
           = Inr (replicate (nat (int N div navg)) (fmean (replicate (nat navg - 1) v)))"
proof -
  let ?n = "nat (int N div navg)"
  have k: "0 < nat navg - 1" using assms(1) by simp
  have "map (\<lambda>i. if survivors_plain (replicate N v) (replicate N True) navg i = []
                  then Fin (- 9999)
                  else fmean (survivors_plain (replicate N v) (replicate N True) navg i)) [0 ..< ?n]
        = map (\<lambda>i. fmean (replicate (nat navg - 1) v)) [0 ..< ?n]"
  proof (intro map_cong refl)
    fix i assume "i \<in> set [0 ..< ?n]"
    then have i: "int i < int N div navg" by (simp add: zless_nat_eq_int_zless)
    show "(if survivors_plain (replicate N v) (replicate N True) navg i = [] then Fin (- 9999)
           else fmean (survivors_plain (replicate N v) (replicate N True) navg i))
          = fmean (replicate (nat navg - 1) v)"
      using survivors_plain_replicate[OF assms(1) i assms(3)] k by auto
  qed
  moreover have "vector_average (replicate N v) navg None None =
     Inr (map (\<lambda>i. if survivors_plain (replicate N v) (replicate N True) navg i = []
                  then Fin (- 9999)
                  else fmean (survivors_plain (replicate N v) (replicate N True) navg i)) [0 ..< ?n])"
    using vector_average_plain[of navg "replicate N v" None] assms(1,2)
    by (simp add: valid_mask_def)
  ultimately show ?thesis
    by (simp add: map_replicate_const)
qed

lemma vector_average_filtered_constant:
  assumes "2 \<le> navg" "N \<noteq> 1" "\<not> fgt v (Fin (- 999))"
  shows "vector_average (replicate N v) navg None None
           = Inr (replicate (nat (int N div navg)) (Fin (- 9999)))"
proof -
  let ?n = "nat (int N div navg)"
  have e: "survivors_plain (replicate N v) (replicate N True) navg i = []"
    if "int i < int N div navg" for i
    using block_indices_in_range[OF assms(1) that] assms(3)
    by (auto simp: survivors_plain_def filter_empty_conv)
  have "map (\<lambda>i. if survivors_plain (replicate N v) (replicate N True) navg i = []
                  then Fin (- 9999)
                  else fmean (survivors_plain (replicate N v) (replicate N True) navg i)) [0 ..< ?n]
        = map (\<lambda>i. Fin (- 9999)) [0 ..< ?n]"
    by (intro map_cong refl) (simp add: e zless_nat_eq_int_zless)
  moreover have "vector_average (replicate N v) navg None None =
     Inr (map (\<lambda>i. if survivors_plain (replicate N v) (replicate N True) navg i = []
                  then Fin (- 9999)
                  else fmean (survivors_plain (replicate N v) (replicate N True) navg i)) [0 ..< ?n])"
    using vector_average_plain[of navg "replicate N v" None] assms(1,2)
    by (simp add: valid_mask_def)
  ultimately show ?thesis
    by (simp add: map_replicate_const)
qed

section \<open>Properties of the array reducer\<close>

lemma array_block_None:
  assumes "2 \<le> navg" "int i < int (length (rows a0)) div navg" "length vd = length (rows a0)"
  shows "array_block a0 navg vd None i =
           Inr (if kept_rows a0 vd navg i = [] then replicate (ncols a0) (Fin (- 9999))
                else map (\<lambda>c. column_average (map (\<lambda>r. r ! c) (kept_rows a0 vd navg i)))
                       [0 ..< ncols a0])"
proof -
  have a: "py_slice (rows a0) (int i * navg) (int i * navg + navg - 1)
             = map (\<lambda>j. rows a0 ! j) (block_indices navg i)"
    using assms(1,2) by (rule block_slices)
  have b: "py_slice vd (int i * navg) (int i * navg + navg - 1)
             = map (\<lambda>j. vd ! j) (block_indices navg i)"
    using assms by (intro block_slices) simp_all
  show ?thesis
    unfolding array_block_def Let_def a b kept_rows_def
    by (simp add: True_in_map bool_index_map del: set_map)
qed

lemma array_loop_total:
  assumes "\<And>i. i \<in> set js \<Longrightarrow> block i = Inr (f i)"
  shows "array_loop block js a = Inr (fold (\<lambda>i a. a[i := f i]) js a)"
  using assms by (induction js arbitrary: a) auto

lemma array_average_rows:
  assumes "2 \<le> navg" "squeezed_ndim2 a0 = 2"
    and "length (valid_mask valid (length (rows a0))) = length (rows a0)"
  shows "array_average a0 navg weighted valid None =
           Inr \<lparr>ncols = ncols a0,
                rows = map (\<lambda>i. if kept_rows a0 (valid_mask valid (length (rows a0))) navg i = []
                                 then replicate (ncols a0) (Fin (- 9999))
                                 else map (\<lambda>c. column_average
                                            (map (\<lambda>r. r ! c)
                                               (kept_rows a0 (valid_mask valid (length (rows a0))) navg i)))
                                        [0 ..< ncols a0])
                         [0 ..< nat (int (length (rows a0)) div navg)]\<rparr>"
proof -
  let ?n = "int (length (rows a0)) div navg"
  let ?vd = "valid_mask valid (length (rows a0))"
  let ?f = "\<lambda>i. if kept_rows a0 ?vd navg i = [] then replicate (ncols a0) (Fin (- 9999))
                 else map (\<lambda>c. column_average (map (\<lambda>r. r ! c) (kept_rows a0 ?vd navg i)))
                        [0 ..< ncols a0]"
  have n0: "0 \<le> ?n" using assms(1) by (simp add: pos_imp_zdiv_nonneg_iff)
  have "array_loop (array_block a0 navg ?vd None) [0 ..< nat ?n]
          (replicate (nat ?n) (replicate (ncols a0) (Fin 0)))
        = Inr (fold (\<lambda>i a. a[i := ?f i]) [0 ..< nat ?n]
                 (replicate (nat ?n) (replicate (ncols a0) (Fin 0))))"
    by (rule array_loop_total) (use assms n0 in \<open>auto simp: array_block_None\<close>)
  also have "\<dots> = Inr (map ?f [0 ..< nat ?n])"
    by (simp add: fold_update_upt)
  finally show ?thesis
    using assms(1,2) n0 by (simp add: array_average_def Let_def)
qed





text \<open>
  Claim C2, as amended. For a vector that the dimension assertion accepts (its length is not
  one), \<open>navg \<ge> 2\<close> and a mask parallel to the vector, block \<open>i\<close> of \<^verbatim>\<open>_vector_average\<close> is
  computed from the \<open>navg - 1\<close> indices \<open>[i * navg, i * navg + navg - 1)\<close> alone: the last index
  of the block is not among them, and two inputs that agree on these indices have the same
  survivors. \<^verbatim>\<open>_array_average\<close> reads the same indices of the shot axis. With an all-valid
  mask and no sentinel, every block of a constant vector of a value \<open>v > -999\<close> is the mean
  of exactly \<open>navg - 1\<close> samples, each equal to \<open>v\<close>; for \<open>navg = 2\<close> that is the one sample
  \<open>v\<close> itself. Nothing is said of the value that the floating-point mean of several equal
  samples takes. A constant value that is not \<^verbatim>\<open>> -999\<close> is filtered out, and every block is
  \<open>-9999\<close>.
\<close>

theorem C2_block_excludes_last_index:
  assumes "2 \<le> navg" and "length v0 \<noteq> 1"
    and "length (valid_mask valid (length v0)) = length v0"
  shows "let n = nat (int (length v0) div navg); vd = valid_mask valid (length v0) in
         vector_average v0 navg None valid =
           Inr (map (\<lambda>i. if survivors_plain v0 vd navg i = [] then Fin (- 9999)
                          else fmean (survivors_plain v0 vd navg i)) [0 ..< n])
         \<and> length (block_indices navg i) = nat navg - 1
         \<and> i * nat navg + nat navg - 1 \<notin> set (block_indices navg i)
         \<and> ((\<forall>j \<in> set (block_indices navg i). v0' ! j = v0 ! j \<and> vd' ! j = vd ! j)
              \<longrightarrow> survivors_plain v0' vd' navg i = survivors_plain v0 vd navg i)
         \<and> (squeezed_ndim2 a0 = 2
              \<and> length (valid_mask avalid (length (rows a0))) = length (rows a0) \<longrightarrow>
              array_average a0 navg weighted avalid None =
                Inr \<lparr>ncols = ncols a0,
                     rows = map (\<lambda>i. if kept_rows a0 (valid_mask avalid (length (rows a0))) navg i = []
                                      then replicate (ncols a0) (Fin (- 9999))
                                      else map (\<lambda>c. column_average
                                                 (map (\<lambda>r. r ! c)
                                                    (kept_rows a0 (valid_mask avalid (length (rows a0))) navg i)))
                                             [0 ..< ncols a0])
                              [0 ..< nat (int (length (rows a0)) div navg)]\<rparr>)
         \<and> (fgt v (Fin (- 999)) \<longrightarrow>
              vector_average (replicate (length v0) v) navg None None
                = Inr (replicate n (fmean (replicate (nat navg - 1) v)))
              \<and> (\<forall>k < n. survivors_plain (replicate (length v0) v)
                              (replicate (length v0) True) navg k = replicate (nat navg - 1) v)
              \<and> (navg = 2 \<longrightarrow>
                   vector_average (replicate (length v0) v) navg None None = Inr (replicate n v)))
         \<and> (\<not> fgt v (Fin (- 999)) \<longrightarrow>
              vector_average (replicate (length v0) v) navg None None
                = Inr (replicate n (Fin (- 9999))))"
proof -
  have two: "navg = 2 \<Longrightarrow> fgt v (Fin (- 999)) \<Longrightarrow> fmean (replicate (nat navg - 1) v) = v"
    using fmean_single[of v] by simp
  show ?thesis
    using assms vector_average_plain[of navg v0 valid]
      survivors_plain_cong[of navg i v0' v0 vd' "valid_mask valid (length v0)"]
      vector_average_constant[of navg "length v0" v]
      vector_average_filtered_constant[of navg "length v0" v]
      survivors_plain_replicate[of navg _ "length v0" v]
      array_average_rows[of navg a0 avalid weighted] two
    by (auto simp: Let_def length_block_indices block_indices_def zless_nat_eq_int_zless)
qed

theorem C2_constant_vector_counterexample:
  "vector_average [Fin (- 1000), Fin (- 1000), Fin (- 1000), Fin (- 1000)] 2 None None
     = Inr [Fin (- 9999), Fin (- 9999)]
   \<and> vector_average [Fin (- 1000), Fin (- 1000), Fin (- 1000), Fin (- 1000)] 2 None None
     \<noteq> Inr [Fin (- 1000), Fin (- 1000)]"
  by code_simp

theorem C2_block_excludes_last_index_witness:
  "vector_average [Fin 1, Fin 3, Fin 100, Fin 5, Fin 9, Fin 200, Fin 7] 3 None None
     = Inr [Fin 2, Fin 7]
   \<and> vector_average [Fin 4, Fin 4, Fin 4, Fin 4, Fin 4, Fin 4, Fin 4] 3 None None
     = Inr (replicate 2 (fmean (replicate 2 (Fin 4))))
   \<and> array_average \<lparr>ncols = 2, rows = [[Fin 1, Fin 2], [Fin 3, Fin 4], [Fin 50, Fin 60]]\<rparr>
        3 False None None = Inr \<lparr>ncols = 2, rows = [[Fin 2, Fin 3]]\<rparr>"
  using C2_block_excludes_last_index[of 3 "[Fin 1, Fin 3, Fin 100, Fin 5, Fin 9, Fin 200, Fin 7]"
          None 0 "[]" "[]"
          "\<lparr>ncols = 2, rows = [[Fin 1, Fin 2], [Fin 3, Fin 4], [Fin 50, Fin 60]]\<rparr>" None False
          "Fin 4"]
  by (simp add: valid_mask_def survivors_plain_def block_indices_def squeezed_ndim2_def
        kept_rows_def column_average_def
        fgt_def fmean_def fsum_def upt_conv_Cons Let_def)

text \<open>
  Claim C6, as amended. For every input that the reducers' dimension assertion accepts (a
  vector whose length is not one; an array with neither one row nor one column), \<open>navg = 1\<close>
  is the identity of \<^verbatim>\<open>_vector_average\<close> and \<^verbatim>\<open>_array_average\<close>, whatever the mask and the
  sentinel, and \<^verbatim>\<open>_array_std\<close> returns an array of the same shape that is zero everywhere.
\<close>

theorem C6_navg_one_identity:
  "(length v0 \<noteq> 1 \<longrightarrow> vector_average v0 1 missing valid = Inr v0)
   \<and> (squeezed_ndim2 a0 = 2 \<longrightarrow>
        array_average a0 1 weighted avalid amissing = Inr a0
        \<and> array_std a0 1 svalid = Inr (zeros_like a0)
        \<and> ncols (zeros_like a0) = ncols a0
        \<and> map length (rows (zeros_like a0)) = map length (rows a0)
        \<and> (\<forall>r \<in> set (rows (zeros_like a0)). \<forall>x \<in> set r. x = Fin 0))"
  by (auto simp: vector_average_def array_average_def array_std_def zeros_like_def)

theorem C6_navg_one_counterexample:
  "vector_average [Fin 5] 1 None None = Inl AssertionError
   \<and> array_average \<lparr>ncols = 2, rows = [[Fin 1, Fin 2]]\<rparr> 1 False None None = Inl AssertionError
   \<and> array_std \<lparr>ncols = 1, rows = [[Fin 1], [Fin 2]]\<rparr> 1 None = Inl AssertionError"
  by (simp add: vector_average_def array_average_def array_std_def squeezed_ndim2_def)

theorem C6_navg_one_identity_witness:
  "vector_average [Fin 5, NaN] 1 (Some (Fin 5)) (Some [False, False]) = Inr [Fin 5, NaN]
   \<and> array_average \<lparr>ncols = 2, rows = [[Fin 1, Fin 2], [Fin 3, Fin (- 9999)]]\<rparr> 1 True None None
       = Inr \<lparr>ncols = 2, rows = [[Fin 1, Fin 2], [Fin 3, Fin (- 9999)]]\<rparr>
   \<and> array_std \<lparr>ncols = 2, rows = [[Fin 1, Fin 2], [Fin 3, Fin (- 9999)]]\<rparr> 1 None
       = Inr \<lparr>ncols = 2, rows = [[Fin 0, Fin 0], [Fin 0, Fin 0]]\<rparr>"
  using C6_navg_one_identity[of "[Fin 5, NaN]" "Some (Fin 5)" "Some [False, False]"
          "\<lparr>ncols = 2, rows = [[Fin 1, Fin 2], [Fin 3, Fin (- 9999)]]\<rparr>" True None None None]
  by (simp add: squeezed_ndim2_def zeros_like_def)

text \<open>
  Claim C4. In \<^verbatim>\<open>_vector_average\<close> with a sentinel \<open>m\<close>, the survivors of a block are
  exactly its members that differ from the sentinel, are mask-valid and are \<^verbatim>\<open>> -999\<close>; the
  block is their mean, and a block with no survivor is NaN (the stored \<^verbatim>\<open>None\<close>). For the
  same input the path without a sentinel gives \<open>-9999\<close> to a block with no mask-valid member
  \<^verbatim>\<open>> -999\<close>; such a block has no survivor with a sentinel either, and NaN is not \<open>-9999\<close>.
\<close>

theorem C4_sentinel_block_is_nan:
  assumes "2 \<le> navg" and "length v0 \<noteq> 1"
    and "length (valid_mask valid (length v0)) = length v0"
  shows "let vd = valid_mask valid (length v0); n = nat (int (length v0) div navg) in
         vector_average v0 navg (Some m) valid =
           Inr (map (\<lambda>i. if survivors_sentinel v0 vd m navg i = [] then NaN
                          else fmean (survivors_sentinel v0 vd m navg i)) [0 ..< n])
         \<and> vector_average v0 navg None valid =
           Inr (map (\<lambda>i. if survivors_plain v0 vd navg i = [] then Fin (- 9999)
                          else fmean (survivors_plain v0 vd navg i)) [0 ..< n])
         \<and> (survivors_plain v0 vd navg i = [] \<longrightarrow> survivors_sentinel v0 vd m navg i = [])
         \<and> NaN \<noteq> Fin (- 9999)"
  using assms vector_average_sentinel[of navg v0 valid m] vector_average_plain[of navg v0 valid]
    survivors_sentinel_subset[of v0 "valid_mask valid (length v0)" navg i m]
  by (simp add: Let_def)

theorem C4_sentinel_block_is_nan_witness:
  "vector_average [Fin 5, Fin 5, Fin 9, Fin 1, Fin (- 1000), Fin 3] 3 (Some (Fin 5))
        (Some [True, True, True, False, False, False]) = Inr [NaN, NaN]
   \<and> vector_average [Fin 5, Fin 5, Fin 9, Fin 1, Fin (- 1000), Fin 3] 3 None
        (Some [True, True, True, False, False, False]) = Inr [Fin 5, Fin (- 9999)]"
  using C4_sentinel_block_is_nan[of 3 "[Fin 5, Fin 5, Fin 9, Fin 1, Fin (- 1000), Fin 3]"
          "Some [True, True, True, False, False, False]" "Fin 5" 1]
  by (simp add: valid_mask_def survivors_sentinel_def survivors_plain_def block_indices_def
        fne_def fgt_def fmean_def fsum_def upt_conv_Cons Let_def)

section \<open>Properties of the vertical regridder\<close>

lemma remap_rows_ok:
  assumes "y0 \<noteq> []" "\<forall>r \<in> set rs. length r = length y0"
  shows "remap_rows rs y0 y = Inr (map (\<lambda>r. map (\<lambda>x. interp_point x (rev y0) (rev r)) y) rs)"
  using assms by (induction rs) (simp_all add: np_interp_def)

lemma interp_point_below:
  assumes "xp \<noteq> []" "x < Min (set xp)"
  shows "interp_point x xp fp = hd fp"
proof -
  have "x < hd xp" "x < last xp" using assms by (simp_all add: Min_gr_iff)
  then show ?thesis by (simp add: interp_point_def)
qed

lemma interp_point_above:
  assumes "xp \<noteq> []" "Max (set xp) < x"
  shows "interp_point x xp fp = last fp"
proof -
  have "last xp < x" using assms by (simp add: Max_less_iff)
  then show ?thesis by (simp add: interp_point_def)
qed

lemma sorted_Min_hd: "sorted xs \<Longrightarrow> xs \<noteq> [] \<Longrightarrow> Min (set xs) = hd (xs :: real list)"
  by (cases xs) (auto intro!: Min_eqI)

lemma sorted_Max_last: "sorted xs \<Longrightarrow> xs \<noteq> [] \<Longrightarrow> Max (set xs) = last (xs :: real list)"
proof (induction xs)
  case Nil then show ?case by simp
next
  case (Cons a xs)
  show ?case
  proof (cases "xs = []")
    case True then show ?thesis by simp
  next
    case False
    then have "Max (set xs) = last xs" using Cons by simp
    moreover have "a \<le> last xs" using Cons(2) False by simp
    ultimately show ?thesis using False by (simp add: max_def)
  qed
qed

text \<open>
  Claim C5. For every row of the field given to \<^verbatim>\<open>_remap_y\<close> and every target coordinate
  below the minimum or above the maximum of the coarse coordinates, the output is the value
  of that row at the end of the coarse grid: the last value of the row below the minimum,
  the first value above the maximum. On a decreasing coarse grid the minimum is the last
  coordinate and the maximum the first, so each is the value at the nearest coordinate, and
  nothing is extrapolated.
\<close>

theorem C5_remap_clamps_to_endpoints:
  assumes "y0 \<noteq> []" and "\<forall>r \<in> set (rows z0). length r = length y0"
    and "i < length (rows z0)" and "k < length y"
  shows "\<exists>z. remap_y z0 y0 y = Inr z
           \<and> length (rows z) = length (rows z0) \<and> length (rows z ! i) = length y
           \<and> (y ! k < Min (set y0) \<longrightarrow> rows z ! i ! k = last (rows z0 ! i))
           \<and> (Max (set y0) < y ! k \<longrightarrow> rows z ! i ! k = hd (rows z0 ! i))
           \<and> (sorted (rev y0) \<longrightarrow> Min (set y0) = last y0 \<and> Max (set y0) = hd y0)"
proof -
  have r: "rows z0 ! i \<noteq> []" using assms by (metis length_0_conv nth_mem)
  have s: "sorted (rev y0) \<Longrightarrow> Min (set y0) = last y0 \<and> Max (set y0) = hd y0"
  proof -
    assume a: "sorted (rev y0)"
    have "rev y0 \<noteq> []" using assms(1) by simp
    then have "Min (set (rev y0)) = hd (rev y0)" "Max (set (rev y0)) = last (rev y0)"
      using a by (simp_all add: sorted_Min_hd sorted_Max_last del: set_rev)
    then show ?thesis using assms(1) by (simp add: hd_rev last_rev)
  qed
  show ?thesis
    using assms r s
      interp_point_below[of "rev y0" "y ! k" "rev (rows z0 ! i)"]
      interp_point_above[of "rev y0" "y ! k" "rev (rows z0 ! i)"]
    by (simp add: remap_y_def remap_rows_ok hd_rev last_rev)
qed

theorem C5_remap_clamps_to_endpoints_witness:
  "remap_y \<lparr>ncols = 3, rows = [[Fin 10, Fin 20, Fin 40]]\<rparr> [8, 4, 0] [9, 6, 2, - 1]
     = Inr \<lparr>ncols = 4, rows = [[Fin 10, Fin 15, Fin 30, Fin 40]]\<rparr>"
  using C5_remap_clamps_to_endpoints[of "[8, 4, 0]" "\<lparr>ncols = 3, rows = [[Fin 10, Fin 20, Fin 40]]\<rparr>"
          0 0 "[9, 6, 2, - 1]"]
  by (simp add: remap_y_def np_interp_def interp_point_def fsub_def)

section \<open>Properties of the file objects\<close>

text \<open>
  Claim C9, as amended. \<^verbatim>\<open>close\<close> on an open file object of either product level releases
  the container and leaves the handle closed; \<^verbatim>\<open>close\<close> on a closed handle faults with
  AttributeError, so a handle can be closed once.
\<close>

theorem C9_close_not_idempotent:
  "(hdf c = Some h \<longrightarrow> close c = Inr (c\<lparr>hdf := None\<rparr>))
   \<and> (hdf c = None \<longrightarrow> close c = Inl AttributeError)
   \<and> (close c = Inr c' \<longrightarrow> hdf c' = None \<and> close c' = Inl AttributeError)"
  by (auto simp: close_def split: option.splits)

theorem C9_close_not_idempotent_witness:
  "close \<lparr>hdf = Some Map.empty, z = ''ZD'', valid_rms_profiles = None\<rparr>
     = Inr \<lparr>hdf = None, z = ''ZD'', valid_rms_profiles = None\<rparr>
   \<and> close \<lparr>hdf = None, z = ''ZD'', valid_rms_profiles = None\<rparr> = Inl AttributeError"
  using C9_close_not_idempotent[of "\<lparr>hdf = Some Map.empty, z = ''ZD'', valid_rms_profiles = None\<rparr>"
          Map.empty "\<lparr>hdf = None, z = ''ZD'', valid_rms_profiles = None\<rparr>"]
  by simp

theorem C9_close_twice_counterexample:
  "close \<lparr>hdf = Some Map.empty, z = ''ZN''\<rparr> = Inr \<lparr>hdf = None, z = ''ZN''\<rparr>
   \<and> close \<lparr>hdf = None, z = ''ZN''\<rparr> = Inl AttributeError"
  by (simp add: close_def)

lemma read_var_no_result:
  assumes "hdf c = Some f" "f varname = Some var" "var = Arr1 xs \<or> var = Arr2 a"
    and "shots var \<noteq> 1" "int (shots var) < navg"
  shows "read_var c varname navg idx missing = Inr NoResult"
proof -
  have "navg \<noteq> 0" using assms(5) by auto
  moreover have "np_size0 (Some (squeeze var)) = Inr (shots var)"
    using assms(3,4) by auto
  ultimately show ?thesis
    using assms by (simp add: read_var_def read_sds_def Let_def)
qed

text \<open>
  For a variable whose number of shots is not one, a request with \<open>navg\<close> larger than the
  number of shots is answered by \<^verbatim>\<open>None\<close>.
\<close>

theorem read_var_refuses_large_navg:
  assumes "hdf c = Some f" and "f varname = Some var" and "var = Arr1 xs \<or> var = Arr2 a"
    and "shots var \<noteq> 1" and "int (shots var) < navg"
  shows "read_var c varname navg idx missing = Inr NoResult"
  using assms by (rule read_var_no_result)

theorem read_var_refuses_large_navg_witness:
  "read_var \<lparr>hdf = Some [''Latitude'' \<mapsto> Arr1 [Fin 45, Fin 46, Fin 47]], z = ''ZN'',
              valid_rms_profiles = None\<rparr> ''Latitude'' 5 None None = Inr NoResult"
  using read_var_refuses_large_navg[of
          "\<lparr>hdf = Some [''Latitude'' \<mapsto> Arr1 [Fin 45, Fin 46, Fin 47]], z = ''ZN'',
              valid_rms_profiles = None\<rparr>"
          "[''Latitude'' \<mapsto> Arr1 [Fin 45, Fin 46, Fin 47]]" "''Latitude''"
          "Arr1 [Fin 45, Fin 46, Fin 47]" "[Fin 45, Fin 46, Fin 47]"
          "\<lparr>ncols = 0, rows = []\<rparr>" 5 None None]
  by simp

text \<open>
  Claim C7 at a file with a single shot. \<^verbatim>\<open>_read_sds\<close> squeezes the variable, so the shot
  axis of length one is gone when \<^verbatim>\<open>_read_var\<close> takes \<^verbatim>\<open>np.size(var, 0)\<close>: for a
  one-dimensional variable the request \<open>navg = 2\<close> raises IndexError, and for a profile of
  four altitude bins it is answered by an average along the altitudes. Neither is the
  \<^verbatim>\<open>None\<close> of the claim.
\<close>

theorem C7_single_shot_evaluation:
  "read_var \<lparr>hdf = Some [''Latitude'' \<mapsto> Arr1 [Fin 45]], z = ''ZN'', valid_rms_profiles = None\<rparr>
     ''Latitude'' 2 None None = Inl IndexError
   \<and> read_var \<lparr>hdf = Some [''Total_Attenuated_Backscatter_532'' \<mapsto>
                     Arr2 \<lparr>ncols = 4, rows = [[Fin 1, Fin 3, Fin 5, Fin 7]]\<rparr>],
                 z = ''ZN'', valid_rms_profiles = None\<rparr>
       ''Total_Attenuated_Backscatter_532'' 2 None None = Inr (Data (Arr1 [Fin 1, Fin 5]))"
  by code_simp

section \<open>Properties of the time decoder\<close>

lemma decdate_to_ymd_floor:
  "decdate_to_ymd u = (\<lfloor>u\<rfloor> div 10000 + 2000, (\<lfloor>u\<rfloor> mod 10000) div 100, \<lfloor>u\<rfloor> mod 100)"
proof -
  let ?y = "\<lfloor>u / 10000\<rfloor>"
  let ?r = "u - of_int ?y * 10000"
  let ?m = "\<lfloor>?r / 100\<rfloor>"
  have y: "?y = \<lfloor>u\<rfloor> div 10000"
    using floor_divide_real_eq_div[of 10000 u] by simp
  have fr: "\<lfloor>?r\<rfloor> = \<lfloor>u\<rfloor> mod 10000"
  proof -
    have "?r = u - of_int (?y * 10000)" by simp
    then have "\<lfloor>?r\<rfloor> = \<lfloor>u\<rfloor> - ?y * 10000" by (simp only: floor_diff_of_int)
    then show ?thesis unfolding y by (simp add: minus_div_mult_eq_mod)
  qed
  have m: "?m = (\<lfloor>u\<rfloor> mod 10000) div 100"
    using floor_divide_real_eq_div[of 100 ?r] fr by simp
  have "?r - of_int ?m * 100 = ?r - of_int (?m * 100)" by simp
  then have "\<lfloor>?r - of_int ?m * 100\<rfloor> = \<lfloor>?r\<rfloor> - ?m * 100" by (simp only: floor_diff_of_int)
  also have "\<dots> = (\<lfloor>u\<rfloor> mod 10000) mod 100" unfolding fr m by (simp add: minus_div_mult_eq_mod)
  also have "\<dots> = \<lfloor>u\<rfloor> mod 100" by (simp add: mod_mod_cancel)
  finally have d: "\<lfloor>?r - of_int ?m * 100\<rfloor> = \<lfloor>u\<rfloor> mod 100" .
  show ?thesis unfolding decdate_to_ymd_def Let_def using y m d by simp
qed

lemma ymd_eq_floor_eq:
  assumes "decdate_to_ymd u = decdate_to_ymd v"
  shows "\<lfloor>u\<rfloor> = \<lfloor>v\<rfloor>"
proof -
  have a: "\<lfloor>u\<rfloor> div 10000 = \<lfloor>v\<rfloor> div 10000" "(\<lfloor>u\<rfloor> mod 10000) div 100 = (\<lfloor>v\<rfloor> mod 10000) div 100"
    "\<lfloor>u\<rfloor> mod 100 = \<lfloor>v\<rfloor> mod 100"
    using assms by (simp_all add: decdate_to_ymd_floor)
  have r: "x = 10000 * (x div 10000) + 100 * ((x mod 10000) div 100) + x mod 100" for x :: int
  proof -
    have "x mod 10000 = 100 * ((x mod 10000) div 100) + (x mod 10000) mod 100" by simp
    moreover have "(x mod 10000) mod 100 = x mod 100" by (simp add: mod_mod_cancel)
    ultimately show ?thesis
      using mult_div_mod_eq[of 10000 x] by linarith
  qed
  have "\<lfloor>u\<rfloor> = 10000 * (\<lfloor>u\<rfloor> div 10000) + 100 * ((\<lfloor>u\<rfloor> mod 10000) div 100) + \<lfloor>u\<rfloor> mod 100"
    by (rule r)
  also have "\<dots> = 10000 * (\<lfloor>v\<rfloor> div 10000) + 100 * ((\<lfloor>v\<rfloor> mod 10000) div 100) + \<lfloor>v\<rfloor> mod 100"
    by (simp only: a)
  also have "\<dots> = \<lfloor>v\<rfloor>" by (rule r[symmetric])
  finally show ?thesis .
qed

lemma sorted_between:
  assumes "sorted (utc :: real list)" "u \<in> set utc"
  shows "hd utc \<le> u \<and> u \<le> last utc"
  using assms
proof (induction utc)
  case Nil then show ?case by simp
next
  case (Cons a xs)
  show ?case
  proof (cases "xs = []")
    case True then show ?thesis using Cons by simp
  next
    case False
    then have "last xs \<in> set xs" by simp
    then show ?thesis using Cons False by auto
  qed
qed

lemma datetime_same_date:
  assumes "\<forall>u \<in> set utc. decdate_to_ymd u = d"
  shows "datetime utc =
           (if utc = [] then Inr []
            else case midnight_plus d 0 of
                   Inl e \<Rightarrow> Inl e
                 | Inr t0 \<Rightarrow> Inr (map (\<lambda>u. t0\<lparr>ts_seconds := seconds_into_day u\<rparr>) utc))"
  using assms
  by (induction utc) (auto simp: midnight_plus_def split: prod.splits)

lemma datetime2_same_date:
  assumes "sorted utc" "utc \<noteq> []" "decdate_to_ymd (hd utc) = decdate_to_ymd (last utc)"
  shows "datetime2 utc = datetime utc \<and> single_date_test utc"
proof -
  have fl: "\<lfloor>hd utc\<rfloor> = \<lfloor>last utc\<rfloor>" using assms(3) by (rule ymd_eq_floor_eq)
  have "\<forall>u \<in> set utc. decdate_to_ymd u = decdate_to_ymd (hd utc)"
  proof
    fix u assume "u \<in> set utc"
    then have "hd utc \<le> u \<and> u \<le> last utc" using assms(1) by (rule sorted_between[rotated])
    then have "\<lfloor>hd utc\<rfloor> \<le> \<lfloor>u\<rfloor> \<and> \<lfloor>u\<rfloor> \<le> \<lfloor>last utc\<rfloor>" by (simp add: floor_mono)
    then have "\<lfloor>u\<rfloor> = \<lfloor>hd utc\<rfloor>" using fl by linarith
    then show "decdate_to_ymd u = decdate_to_ymd (hd utc)" by (simp only: decdate_to_ymd_floor)
  qed
  then have "datetime utc =
           (case midnight_plus (decdate_to_ymd (hd utc)) 0 of
                   Inl e \<Rightarrow> Inl e
                 | Inr t0 \<Rightarrow> Inr (map (\<lambda>u. t0\<lparr>ts_seconds := seconds_into_day u\<rparr>) utc))"
    using datetime_same_date[of utc "decdate_to_ymd (hd utc)"] assms(2) by (simp only: if_False)
  moreover have "single_date_test utc" using assms(3) by (simp only: single_date_test_def)
  ultimately show ?thesis using assms(2) by (simp only: datetime2_def if_False if_True simp_thms)
qed

lemma seconds_into_day_range: "0 \<le> seconds_into_day u \<and> seconds_into_day u < 86400"
proof -
  let ?f = "u - of_int \<lfloor>u\<rfloor>"
  have f: "0 \<le> ?f" "?f < 1" by linarith+
  then have "0 \<le> ?f * 24 * 3600" "?f * 24 * 3600 < 86400" by simp_all
  then show ?thesis by (simp add: seconds_into_day_def py_int_def floor_less_iff)
qed

text \<open>
  For an ordered sequence whose first and last sample decode to the same date, every sample
  decodes to that date, \<^verbatim>\<open>datetime2\<close> takes its single-date branch, and it returns what
  \<^verbatim>\<open>datetime\<close> returns.
\<close>

theorem datetime2_agrees_on_one_date:
  assumes "sorted utc" and "utc \<noteq> []"
    and "decdate_to_ymd (hd utc) = decdate_to_ymd (last utc)"
  shows "datetime2 utc = datetime utc \<and> single_date_test utc"
  using assms by (rule datetime2_same_date)

theorem datetime2_agrees_on_one_date_witness:
  "datetime2 [100115.25, 100115.5] = datetime [100115.25, 100115.5]
   \<and> datetime [100115.25, 100115.5]
       = Inr [\<lparr>ts_year = 2010, ts_month = 1, ts_day = 15, ts_seconds = 21600\<rparr>,
              \<lparr>ts_year = 2010, ts_month = 1, ts_day = 15, ts_seconds = 43200\<rparr>]"
proof -
  have s: "sorted [100115.25, 100115.5 :: real]" by simp
  have d: "decdate_to_ymd (hd [100115.25, 100115.5]) = decdate_to_ymd (last [100115.25, 100115.5])"
    by code_simp
  have e: "datetime [100115.25, 100115.5]
       = Inr [\<lparr>ts_year = 2010, ts_month = 1, ts_day = 15, ts_seconds = 21600\<rparr>,
              \<lparr>ts_year = 2010, ts_month = 1, ts_day = 15, ts_seconds = 43200\<rparr>]"
    by code_simp
  show ?thesis using datetime2_agrees_on_one_date[OF s _ d] e by simp
qed

text \<open>
  Claim C8 at an ordered sequence that runs from 15 January 2010 to 15 February 2010. The
  test of \<^verbatim>\<open>datetime2\<close> compares the days of the month only, so the single-date branch is
  taken although the sequence straddles date boundaries, and every sample is given the date
  of the first; \<^verbatim>\<open>datetime\<close> decodes the second sample to 15 February.
\<close>

theorem C8_same_day_number_evaluation:
  "sorted [100115.25, 100215.25 :: real]
   \<and> decdate_to_ymd 100115.25 = (2010, 1, 15)
   \<and> decdate_to_ymd 100215.25 = (2010, 2, 15)
   \<and> single_date_test [100115.25, 100215.25]
   \<and> datetime2 [100115.25, 100215.25]
       = Inr [\<lparr>ts_year = 2010, ts_month = 1, ts_day = 15, ts_seconds = 21600\<rparr>,
              \<lparr>ts_year = 2010, ts_month = 1, ts_day = 15, ts_seconds = 21600\<rparr>]
   \<and> datetime [100115.25, 100215.25]
       = Inr [\<lparr>ts_year = 2010, ts_month = 1, ts_day = 15, ts_seconds = 21600\<rparr>,
              \<lparr>ts_year = 2010, ts_month = 2, ts_day = 15, ts_seconds = 21600\<rparr>]"
  by code_simp

section \<open>Properties of the calibration engine\<close>

lemma band_select:
  assumes "length r = length alt"
  shows "map fst (filter snd (zip r (map P alt)))
           = map (\<lambda>k. r ! k) (filter (\<lambda>k. P (alt ! k)) [0 ..< length alt])"
proof -
  have "zip r (map P alt) = map (\<lambda>k. (r ! k, P (alt ! k))) [0 ..< length alt]"
    using assms by (intro nth_equalityI) auto
  then show ?thesis by (simp add: filter_map o_def)
qed

lemma ma_mean_conv:
  "ma_mean xs = (if List.map_filter id xs = [] then None else Some (mean (List.map_filter id xs)))"
  by (simp add: ma_mean_def mean_def Let_def)

lemma map_filter_map: "List.map_filter f (map g xs) = List.map_filter (\<lambda>x. f (g x)) xs"
  by (induction xs) (simp_all add: List.map_filter_simps split: option.splits)

lemma band_mean_row:
  assumes "length r = length alt"
  shows "bool_index r (map (\<lambda>a. zmin \<le> a \<and> a \<le> zmax) alt) = Inr band
           \<Longrightarrow> ma_mean (map masked_invalid band) = ref_band_mean alt zmin zmax r"
  using assms band_select[OF assms, of "\<lambda>a. zmin \<le> a \<and> a \<le> zmax"]
  by (auto simp: bool_index_def ma_mean_conv ref_band_mean_def map_filter_map Let_def)

lemma calib_profile_ok:
  assumes "\<forall>r \<in> set rs. length r = length alt"
  shows "calib_profile rs (map (\<lambda>a. zmin \<le> a \<and> a \<le> zmax) alt)
           = Inr (map (ref_band_mean alt zmin zmax) rs)"
  using assms
proof (induction rs)
  case Nil then show ?case by simp
next
  case (Cons r rs)
  then have l: "length r = length alt" by simp
  obtain band where b: "bool_index r (map (\<lambda>a. zmin \<le> a \<and> a \<le> zmax) alt) = Inr band"
    using l by (simp add: bool_index_def)
  show ?case using Cons b band_mean_row[OF l b] by simp
qed

lemma band_means_ok:
  assumes "wf_array2 a" "ncols a = length alt"
  shows "band_means a (map (\<lambda>a. zmin \<le> a \<and> a \<le> zmax) alt)
           = Inr (map (ref_band_mean alt zmin zmax) (rows a))"
  using assms by (simp add: band_means_def calib_profile_ok wf_array2_def list_all_iff)

lemma map_nat_upto: "0 \<le> a \<Longrightarrow> map nat [a .. b - 1] = [nat a ..< nat b]"
  by (intro nth_equalityI) (auto simp: nat_add_distrib)

lemma take_indices_ok:
  assumes "\<forall>j \<in> set js. 0 \<le> j \<and> j < int (length xs)"
  shows "take_indices xs js = Inr (map (\<lambda>j. xs ! j) (map nat js))"
  using assms by (induction js) auto

lemma map_filter_filter_option:
  "List.map_filter id (filter (\<lambda>x. case x of None \<Rightarrow> False | Some v \<Rightarrow> P v) (map g js))
     = List.map_filter (\<lambda>j. case g j of None \<Rightarrow> None | Some v \<Rightarrow> if P v then Some v else None) js"
  by (induction js) (auto simp: List.map_filter_simps split: option.splits)

lemma mean_ratio_conv:
  "mean_ratio (ma_mean xs) (ma_mean ys)
     = (if List.map_filter id xs = [] \<or> List.map_filter id ys = [] then NaN
        else fdiv (Fin (mean (List.map_filter id xs))) (Fin (mean (List.map_filter id ys))))"
  by (simp add: ma_mean_conv)

lemma upto_range: "j \<in> set [max 0 a .. min (int nprof - 1) b - 1] \<Longrightarrow> 0 \<le> j \<and> j < int nprof"
  by simp

lemma take_window:
  assumes "length A = nprof"
  shows "take_indices A [max 0 (int i - navgh) .. min (int nprof - 1) (int i + navgh) - 1]
           = Inr (map (\<lambda>j. A ! j) (window nprof navgh i))"
proof -
  let ?js = "[max 0 (int i - navgh) .. min (int nprof - 1) (int i + navgh) - 1]"
  have "\<forall>j \<in> set ?js. 0 \<le> j \<and> j < int (length A)"
    unfolding assms using upto_range by blast
  then have "take_indices A ?js = Inr (map (\<lambda>j. A ! j) (map nat ?js))"
    by (rule take_indices_ok)
  moreover have "map nat ?js = window nprof navgh i"
    unfolding window_def by (rule map_nat_upto) simp
  ultimately show ?thesis by (simp only:)
qed

lemma coef_at_ok:
  assumes "length A = nprof" "length M = nprof"
  shows "coef_at A M (lo, hi) nprof navgh i
           = Inr (window_coef (\<lambda>j. A ! j) (\<lambda>j. M ! j) lo hi (window nprof navgh i))"
  unfolding coef_at_def Let_def take_window[OF assms(1)] take_window[OF assms(2)]
  by (simp add: mean_ratio_conv map_filter_filter_option map_filter_map window_coef_def
      window_kept_def window_mols_def Let_def del: upto.simps fdiv.simps)

lemma coef_loop_total:
  assumes "\<And>i. i \<in> set js \<Longrightarrow> body i = Inr (f i)"
  shows "coef_loop body js c = Inr (fold (\<lambda>i c. c[i := f i]) js c)"
  using assms by (induction js arbitrary: c) auto

lemma window_in_range: "j \<in> set (window nprof navgh i) \<Longrightarrow> j < nprof"
  by (auto simp: window_def)

lemma map_filter_cong:
  "(\<And>x. x \<in> set xs \<Longrightarrow> f x = g x) \<Longrightarrow> List.map_filter f xs = List.map_filter g xs"
  by (induction xs) (simp_all add: List.map_filter_simps split: option.splits)

lemma window_coef_cong:
  assumes "\<And>j. j \<in> set w \<Longrightarrow> A j = A' j" "\<And>j. j \<in> set w \<Longrightarrow> M j = M' j"
  shows "window_coef A M lo hi w = window_coef A' M' lo hi w"
proof -
  have "List.map_filter (\<lambda>j. case A j of None \<Rightarrow> None
                         | Some v \<Rightarrow> if lo < v \<and> v < hi then Some v else None) w
        = List.map_filter (\<lambda>j. case A' j of None \<Rightarrow> None
                         | Some v \<Rightarrow> if lo < v \<and> v < hi then Some v else None) w"
    by (rule map_filter_cong) (simp add: assms(1))
  moreover have "List.map_filter M w = List.map_filter M' w"
    by (rule map_filter_cong) (simp add: assms(2))
  ultimately show ?thesis by (simp add: window_coef_def window_kept_def window_mols_def)
qed

lemma mol_calibration_coef_ok:
  assumes "atb_max (z self) = Some amax" "iatb_bounds (z self) = Some (lo, hi)"
    and "atb < length h" "mol < length h" "atb \<noteq> mol"
    and "wf_array2 (h ! atb)" "wf_array2 (h ! mol)"
    and "ncols (h ! atb) = length alt" "ncols (h ! mol) = length alt"
    and "length (rows (h ! atb)) = length (rows (h ! mol))"
  shows "mol_calibration_coef self mol atb alt navgh zmin zmax h =
           Inr (map (\<lambda>i. window_coef
                           (\<lambda>j. ref_band_mean alt zmin zmax (rows (screen_atb amax (h ! atb)) ! j))
                           (\<lambda>j. ref_band_mean alt zmin zmax (rows (screen_mol (h ! mol)) ! j))
                           lo hi (window (length (rows (h ! mol))) navgh i))
                  [0 ..< length (rows (h ! mol))],
                h[atb := screen_atb amax (h ! atb), mol := screen_mol (h ! mol)])"
proof -
  let ?h1 = "h[atb := screen_atb amax (h ! atb)]"
  let ?h2 = "?h1[mol := screen_mol (?h1 ! mol)]"
  let ?idx = "map (\<lambda>a. zmin \<le> a \<and> a \<le> zmax) alt"
  let ?n = "length (rows (h ! mol))"
  let ?ra = "rows (screen_atb amax (h ! atb))"
  let ?rm = "rows (screen_mol (h ! mol))"
  let ?A = "map (ref_band_mean alt zmin zmax) ?ra"
  let ?M = "map (ref_band_mean alt zmin zmax) ?rm"
  have a2: "?h2 ! atb = screen_atb amax (h ! atb)" using assms(3,4,5) by simp
  have m2: "?h2 ! mol = screen_mol (h ! mol)" using assms(3,4,5) by simp
  have h2: "?h2 = h[atb := screen_atb amax (h ! atb), mol := screen_mol (h ! mol)]"
    using assms(3,4,5) by simp
  have wa: "wf_array2 (screen_atb amax (h ! atb))" "ncols (screen_atb amax (h ! atb)) = length alt"
    using assms(6,8) by (simp_all add: wf_array2_def screen_atb_def list_all_iff)
  have wm: "wf_array2 (screen_mol (h ! mol))" "ncols (screen_mol (h ! mol)) = length alt"
    using assms(7,9) by (simp_all add: wf_array2_def screen_mol_def list_all_iff)
  have ba: "band_means (?h2 ! atb) ?idx = Inr ?A"
    unfolding a2 using wa by (rule band_means_ok)
  have bm: "band_means (?h2 ! mol) ?idx = Inr ?M"
    unfolding m2 using wm by (rule band_means_ok)
  have n: "length (rows (?h2 ! mol)) = ?n" unfolding m2 by (simp add: screen_mol_def)
  have lA: "length ?A = ?n" using assms(10) by (simp add: screen_atb_def)
  have lM: "length ?M = ?n" by (simp add: screen_mol_def)
  let ?f = "\<lambda>i. window_coef (\<lambda>j. ?A ! j) (\<lambda>j. ?M ! j) lo hi (window ?n navgh i)"
  let ?g = "\<lambda>i. window_coef (\<lambda>j. ref_band_mean alt zmin zmax (?ra ! j))
                    (\<lambda>j. ref_band_mean alt zmin zmax (?rm ! j)) lo hi (window ?n navgh i)"
  have fg: "?f i = ?g i" for i
  proof (rule window_coef_cong)
    fix j assume "j \<in> set (window ?n navgh i)"
    then have j: "j < ?n" by (rule window_in_range)
    show "?A ! j = ref_band_mean alt zmin zmax (?ra ! j)"
      using j lA by (simp del: upt.simps)
    show "?M ! j = ref_band_mean alt zmin zmax (?rm ! j)"
      using j lM by (simp del: upt.simps)
  qed
  have "coef_loop (coef_at ?A ?M (lo, hi) ?n navgh) [0 ..< ?n] (replicate ?n (Fin 0))
          = Inr (fold (\<lambda>i c. c[i := ?f i]) [0 ..< ?n] (replicate ?n (Fin 0)))"
    by (rule coef_loop_total) (simp only: coef_at_ok[OF lA lM])
  also have "\<dots> = Inr (map ?f [0 ..< ?n])" by (simp only: fold_update_upt length_replicate)
  also have "\<dots> = Inr (map ?g [0 ..< ?n])" by (simp only: fg)
  finally have loop: "coef_loop (coef_at ?A ?M (lo, hi) ?n navgh) [0 ..< ?n] (replicate ?n (Fin 0))
          = Inr (map ?g [0 ..< ?n])" .
  have "mol_calibration_coef self mol atb alt navgh zmin zmax h = Inr (map ?g [0 ..< ?n], ?h2)"
    unfolding mol_calibration_coef_def Let_def
    by (simp only: assms(1,2) option.case ba bm n loop sum.case)
  then show ?thesis by (simp only: h2)
qed

lemma mol_calibration_coef_heap:
  assumes "mol_calibration_coef self mol atb alt navgh zmin zmax h = Inr (coef, h')"
  shows "\<exists>amax. atb_max (z self) = Some amax
           \<and> h' = (h[atb := screen_atb amax (h ! atb)])
                    [mol := screen_mol (h[atb := screen_atb amax (h ! atb)] ! mol)]"
  using assms unfolding mol_calibration_coef_def Let_def
  by (auto split: option.splits sum.splits)

lemma screen_atb_entry:
  assumes "i < length (rows a)" "j < length (rows a ! i)"
  shows "rows (screen_atb amax a) ! i ! j =
           (if fgt (fabs (rows a ! i ! j)) (Fin amax) then NaN else rows a ! i ! j)"
  using assms by (simp add: screen_atb_def)

lemma screen_mol_entry:
  assumes "i < length (rows a)" "j < length (rows a ! i)"
  shows "rows (screen_mol a) ! i ! j =
           (if flt (rows a ! i ! j) (Fin 0) then NaN else rows a ! i ! j)"
  using assms by (simp add: screen_mol_def)

lemma calibrated_heap:
  assumes "mol_on_lidar_alt_calibrated self lidar_alt navg alt navgh metalt idx zcal (Some r) g
             = Inr (m, g')" "r < length g"
  shows "\<exists>amax. atb_max (z self) = Some amax \<and> g' ! r = screen_atb amax (g ! r)"
proof -
  obtain molarr coef h3 where
    c: "mol_calibration_coef self (length g) r lidar_alt navgh (fst zcal) (snd zcal) (g @ [molarr])
          = Inr (coef, h3)"
    and g': "g' = h3[length g := (h3 ! length g)\<lparr>rows :=
                     map2 (\<lambda>r c. map (\<lambda>x. fmul x c) r) (rows (h3 ! length g)) coef\<rparr>]"
    using assms(1) unfolding mol_on_lidar_alt_calibrated_def Let_def
    by (auto split: sum.splits prod.splits)
  from mol_calibration_coef_heap[OF c] obtain amax where
    a: "atb_max (z self) = Some amax"
    and h3: "h3 = ((g @ [molarr])[r := screen_atb amax ((g @ [molarr]) ! r)])
                    [length g := screen_mol ((g @ [molarr])[r := screen_atb amax ((g @ [molarr]) ! r)] ! length g)]"
    by blast
  have "g' ! r = screen_atb amax (g ! r)"
    unfolding g' h3 using assms(2) by (simp add: nth_append)
  with a show ?thesis by blast
qed

lemma map_filter_all_None:
  "(\<And>x. x \<in> set xs \<Longrightarrow> f x = None) \<Longrightarrow> List.map_filter f xs = []"
  by (induction xs) (simp_all add: List.map_filter_simps)

lemma window_kept_none_in_bounds:
  assumes "\<forall>j \<in> set w. \<forall>v. A j = Some v \<longrightarrow> \<not> (lo < v \<and> v < hi)"
  shows "window_kept A lo hi w = []"
  unfolding window_kept_def
  by (rule map_filter_all_None) (use assms in \<open>auto split: option.splits\<close>)

lemma fdiv_zero_not_finite: "fdiv (Fin a) (Fin 0) \<noteq> Fin x"
  by simp

lemma window_coef_cases:
  "(window_kept A lo hi w = [] \<or> window_mols M w = [] \<longrightarrow> window_coef A M lo hi w = NaN)
   \<and> (window_kept A lo hi w \<noteq> [] \<and> window_mols M w \<noteq> [] \<and> mean (window_mols M w) \<noteq> 0 \<longrightarrow>
        window_coef A M lo hi w = Fin (mean (window_kept A lo hi w) / mean (window_mols M w)))
   \<and> (window_kept A lo hi w \<noteq> [] \<and> window_mols M w \<noteq> [] \<and> mean (window_mols M w) = 0 \<longrightarrow>
        (\<forall>x. window_coef A M lo hi w \<noteq> Fin x))"
  by (simp add: window_coef_def Let_def)

text \<open>
  Claim C1. \<^verbatim>\<open>mol_calibration_coef\<close> is called with the arrays \<^verbatim>\<open>mol\<close> and \<^verbatim>\<open>atb\<close>, two
  distinct arrays of the same shape whose rows have the length of the altitude grid, on a
  file whose day/night code is in the tables. It returns one coefficient per profile. For
  profile \<open>i\<close>, let \<open>kept\<close> be the reference-band \<open>atb\<close> values of the window
  \<open>[max(0, i - navgh), min(nprof - 1, i + navgh))\<close> that lie strictly inside the bounds, and
  \<open>mols\<close> the reference-band \<open>mol\<close> values of the same window, which the bounds do not
  filter. The coefficient is the mean of \<open>kept\<close> divided by the mean of \<open>mols\<close>. When no
  \<open>atb\<close> value of the window is inside the bounds (or no \<open>mol\<close> value is valid) the call
  still returns, and the coefficient is NaN, which is not zero. When the mean of \<open>mols\<close> is
  zero the floating-point division gives no finite number (an infinity, or NaN).
\<close>

theorem C1_calibration_coefficient:
  assumes "atb_max (z self) = Some amax" and "iatb_bounds (z self) = Some (lo, hi)"
    and "atb < length h" and "mol < length h" and "atb \<noteq> mol"
    and "wf_array2 (h ! atb)" and "wf_array2 (h ! mol)"
    and "ncols (h ! atb) = length alt" and "ncols (h ! mol) = length alt"
    and "length (rows (h ! atb)) = length (rows (h ! mol))"
  shows "\<exists>coef h'. mol_calibration_coef self mol atb alt navgh zmin zmax h = Inr (coef, h')
           \<and> length coef = length (rows (h ! mol))
           \<and> (\<forall>i < length (rows (h ! mol)).
                 let w = window (length (rows (h ! mol))) navgh i;
                     kept = window_kept
                              (\<lambda>j. ref_band_mean alt zmin zmax (rows (screen_atb amax (h ! atb)) ! j))
                              lo hi w;
                     mols = window_mols
                              (\<lambda>j. ref_band_mean alt zmin zmax (rows (screen_mol (h ! mol)) ! j)) w
                 in (kept = [] \<or> mols = [] \<longrightarrow> coef ! i = NaN)
                    \<and> (kept \<noteq> [] \<and> mols \<noteq> [] \<and> mean mols \<noteq> 0 \<longrightarrow>
                         coef ! i = Fin (mean kept / mean mols))
                    \<and> (kept \<noteq> [] \<and> mols \<noteq> [] \<and> mean mols = 0 \<longrightarrow> (\<forall>x. coef ! i \<noteq> Fin x))
                    \<and> ((\<forall>j \<in> set w. \<forall>v.
                           ref_band_mean alt zmin zmax (rows (screen_atb amax (h ! atb)) ! j) = Some v
                           \<longrightarrow> \<not> (lo < v \<and> v < hi)) \<longrightarrow> coef ! i = NaN))
           \<and> NaN \<noteq> Fin 0"
proof -
  let ?n = "length (rows (h ! mol))"
  let ?A = "\<lambda>j. ref_band_mean alt zmin zmax (rows (screen_atb amax (h ! atb)) ! j)"
  let ?M = "\<lambda>j. ref_band_mean alt zmin zmax (rows (screen_mol (h ! mol)) ! j)"
  let ?coef = "map (\<lambda>i. window_coef ?A ?M lo hi (window ?n navgh i)) [0 ..< ?n]"
  have run: "mol_calibration_coef self mol atb alt navgh zmin zmax h =
               Inr (?coef, h[atb := screen_atb amax (h ! atb), mol := screen_mol (h ! mol)])"
    using assms by (rule mol_calibration_coef_ok)
  have len: "length ?coef = ?n" by simp
  have at: "?coef ! i = window_coef ?A ?M lo hi (window ?n navgh i)" if "i < ?n" for i
    using that by (simp del: upt.simps)
  have each: "let w = window ?n navgh i; kept = window_kept ?A lo hi w; mols = window_mols ?M w
              in (kept = [] \<or> mols = [] \<longrightarrow> ?coef ! i = NaN)
                 \<and> (kept \<noteq> [] \<and> mols \<noteq> [] \<and> mean mols \<noteq> 0 \<longrightarrow>
                      ?coef ! i = Fin (mean kept / mean mols))
                 \<and> (kept \<noteq> [] \<and> mols \<noteq> [] \<and> mean mols = 0 \<longrightarrow> (\<forall>x. ?coef ! i \<noteq> Fin x))
                 \<and> ((\<forall>j \<in> set w. \<forall>v. ?A j = Some v \<longrightarrow> \<not> (lo < v \<and> v < hi))
                      \<longrightarrow> ?coef ! i = NaN)"
    if "i < ?n" for i
    unfolding Let_def at[OF that]
    using window_coef_cases[of ?A lo hi "window ?n navgh i" ?M]
      window_kept_none_in_bounds[of "window ?n navgh i" ?A lo hi]
    by blast
  show ?thesis
    using run len each by blast
qed

theorem C1_calibration_coefficient_witness:
  "\<exists>coef h'. mol_calibration_coef \<lparr>hdf = None, z = ''ZD''\<rparr> 0 1 [35, 32, 31, 20] 1 30 34
          [\<lparr>ncols = 4, rows = [[Fin 1, Fin (2 / 25), Fin (2 / 25), Fin 1],
                                [Fin 1, Fin (2 / 25), Fin (- 1), Fin 1],
                                [Fin 1, Fin (2 / 25), Fin (2 / 25), Fin 1]]\<rparr>,
           \<lparr>ncols = 4, rows = [[Fin 2, Fin (1 / 250), Fin (1 / 250), Fin 0],
                                [Fin 0, Fin (1 / 2), Fin (1 / 2), Fin 0],
                                [Fin 0, Fin (1 / 250), Fin (1 / 250), Fin 0]]\<rparr>]
        = Inr (coef, h')
      \<and> length coef = 3 \<and> coef ! 0 = Fin (1 / 20) \<and> coef ! 2 = NaN"
proof -
  let ?mol = "\<lparr>ncols = 4, rows = [[Fin 1, Fin (2 / 25), Fin (2 / 25), Fin 1],
                                [Fin 1, Fin (2 / 25), Fin (- 1), Fin 1],
                                [Fin 1, Fin (2 / 25), Fin (2 / 25), Fin 1]]\<rparr>"
  let ?atb = "\<lparr>ncols = 4, rows = [[Fin 2, Fin (1 / 250), Fin (1 / 250), Fin 0],
                                [Fin 0, Fin (1 / 2), Fin (1 / 2), Fin 0],
                                [Fin 0, Fin (1 / 250), Fin (1 / 250), Fin 0]]\<rparr>"
  let ?self = "\<lparr>hdf = None, z = ''ZD''\<rparr>"
  let ?alt = "[35, 32, 31, 20] :: real list"
  let ?lo = "- (1152921504606847 / 144115188075855872) :: real"
  let ?hi = "1152921504606847 / 144115188075855872 :: real"
  let ?A = "\<lambda>j. ref_band_mean ?alt 30 34 (rows (screen_atb 1 ([?mol, ?atb] ! 1)) ! j)"
  let ?M = "\<lambda>j. ref_band_mean ?alt 30 34 (rows (screen_mol ([?mol, ?atb] ! 0)) ! j)"
  let ?n = "length (rows ([?mol, ?atb] ! 0))"
  have n: "?n = 3" by simp
  have k0: "window_kept ?A ?lo ?hi (window ?n 1 0) = [1 / 250]" by code_simp
  have m0: "window_mols ?M (window ?n 1 0) = [2 / 25]" by code_simp
  have k2: "window_kept ?A ?lo ?hi (window ?n 1 2) = []" by code_simp
  obtain coef h' where
    run: "mol_calibration_coef ?self 0 1 ?alt 1 30 34 [?mol, ?atb] = Inr (coef, h')"
    and len: "length coef = ?n"
    and each: "\<forall>i < ?n.
                 let w = window ?n 1 i; kept = window_kept ?A ?lo ?hi w; mols = window_mols ?M w
                 in (kept = [] \<or> mols = [] \<longrightarrow> coef ! i = NaN)
                    \<and> (kept \<noteq> [] \<and> mols \<noteq> [] \<and> mean mols \<noteq> 0 \<longrightarrow>
                         coef ! i = Fin (mean kept / mean mols))
                    \<and> (kept \<noteq> [] \<and> mols \<noteq> [] \<and> mean mols = 0 \<longrightarrow> (\<forall>x. coef ! i \<noteq> Fin x))
                    \<and> ((\<forall>j \<in> set w. \<forall>v. ?A j = Some v \<longrightarrow> \<not> (?lo < v \<and> v < ?hi))
                         \<longrightarrow> coef ! i = NaN)"
    using C1_calibration_coefficient[of ?self 1 ?lo ?hi 1 "[?mol, ?atb]" 0 ?alt 1 30 34]
    by (auto simp: atb_max_def iatb_bounds_def wf_array2_def simp del: upt.simps)
  have "0 < ?n" "2 < ?n" by simp_all
  with each have
    e0: "let w = window ?n 1 0; kept = window_kept ?A ?lo ?hi w; mols = window_mols ?M w
         in (kept \<noteq> [] \<and> mols \<noteq> [] \<and> mean mols \<noteq> 0 \<longrightarrow> coef ! 0 = Fin (mean kept / mean mols))"
    and e2: "let w = window ?n 1 2; kept = window_kept ?A ?lo ?hi w; mols = window_mols ?M w
         in (kept = [] \<or> mols = [] \<longrightarrow> coef ! 2 = NaN)"
    by (metis (no_types, lifting))+
  have c0: "coef ! 0 = Fin (1 / 20)"
    using e0 unfolding Let_def k0 m0 by (simp add: mean_def)
  have c2: "coef ! 2 = NaN"
    using e2 unfolding Let_def k2 by simp
  have l3: "length coef = 3" using len n by (simp only:)
  show ?thesis using run l3 c0 c2 by blast
qed

text \<open>
  Claim C10. \<^verbatim>\<open>mol_calibration_coef\<close> leaves the caller's arrays screened: in the array
  \<^verbatim>\<open>atb\<close> every entry whose magnitude exceeds \<^verbatim>\<open>atb_max\<close> of the file's day/night code is
  NaN, in the array \<^verbatim>\<open>mol\<close> every negative entry is NaN, and all other entries are as they
  were. \<^verbatim>\<open>mol_on_lidar_alt_calibrated\<close> hands its caller's \<^verbatim>\<open>atb\<close> to that call, so the
  caller's array is screened when it returns.
\<close>

theorem C10_inputs_mutated_in_place:
  "(mol_calibration_coef self mol atb alt navgh zmin zmax h = Inr (coef, h')
      \<and> atb < length h \<and> mol < length h \<and> atb \<noteq> mol
    \<longrightarrow> (\<exists>amax. atb_max (z self) = Some amax
          \<and> h' ! atb = screen_atb amax (h ! atb) \<and> h' ! mol = screen_mol (h ! mol)
          \<and> (\<forall>i j. i < length (rows (h ! atb)) \<and> j < length (rows (h ! atb) ! i) \<longrightarrow>
                rows (h' ! atb) ! i ! j =
                  (if fgt (fabs (rows (h ! atb) ! i ! j)) (Fin amax) then NaN
                   else rows (h ! atb) ! i ! j))
          \<and> (\<forall>i j. i < length (rows (h ! mol)) \<and> j < length (rows (h ! mol) ! i) \<longrightarrow>
                rows (h' ! mol) ! i ! j =
                  (if flt (rows (h ! mol) ! i ! j) (Fin 0) then NaN
                   else rows (h ! mol) ! i ! j))))
   \<and> (mol_on_lidar_alt_calibrated self' lidar_alt navg alt' navgh' metalt idx zcal (Some r) g
        = Inr (m, g') \<and> r < length g
      \<longrightarrow> (\<exists>amax. atb_max (z self') = Some amax \<and> g' ! r = screen_atb amax (g ! r)))"
proof (intro conjI impI)
  assume a: "mol_calibration_coef self mol atb alt navgh zmin zmax h = Inr (coef, h')
      \<and> atb < length h \<and> mol < length h \<and> atb \<noteq> mol"
  then obtain amax where m: "atb_max (z self) = Some amax"
    and h': "h' = (h[atb := screen_atb amax (h ! atb)])
                    [mol := screen_mol (h[atb := screen_atb amax (h ! atb)] ! mol)]"
    using mol_calibration_coef_heap by blast
  have 1: "h' ! atb = screen_atb amax (h ! atb)" and 2: "h' ! mol = screen_mol (h ! mol)"
    using a unfolding h' by simp_all
  show "\<exists>amax. atb_max (z self) = Some amax
          \<and> h' ! atb = screen_atb amax (h ! atb) \<and> h' ! mol = screen_mol (h ! mol)
          \<and> (\<forall>i j. i < length (rows (h ! atb)) \<and> j < length (rows (h ! atb) ! i) \<longrightarrow>
                rows (h' ! atb) ! i ! j =
                  (if fgt (fabs (rows (h ! atb) ! i ! j)) (Fin amax) then NaN
                   else rows (h ! atb) ! i ! j))
          \<and> (\<forall>i j. i < length (rows (h ! mol)) \<and> j < length (rows (h ! mol) ! i) \<longrightarrow>
                rows (h' ! mol) ! i ! j =
                  (if flt (rows (h ! mol) ! i ! j) (Fin 0) then NaN
                   else rows (h ! mol) ! i ! j))"
    using m 1 2 by (simp add: screen_atb_entry screen_mol_entry)
next
  assume "mol_on_lidar_alt_calibrated self' lidar_alt navg alt' navgh' metalt idx zcal (Some r) g
        = Inr (m, g') \<and> r < length g"
  then show "\<exists>amax. atb_max (z self') = Some amax \<and> g' ! r = screen_atb amax (g ! r)"
    using calibrated_heap by blast
qed

theorem C10_inputs_mutated_in_place_witness:
  "mol_calibration_coef \<lparr>hdf = None, z = ''ZD''\<rparr> 0 1 [35, 32, 31, 20] 1 30 34
          [\<lparr>ncols = 4, rows = [[Fin 1, Fin (2 / 25), Fin (2 / 25), Fin 1],
                                [Fin 1, Fin (2 / 25), Fin (- 1), Fin 1],
                                [Fin 1, Fin (2 / 25), Fin (2 / 25), Fin 1]]\<rparr>,
           \<lparr>ncols = 4, rows = [[Fin 2, Fin (1 / 250), Fin (1 / 250), Fin 0],
                                [Fin 0, Fin (1 / 2), Fin (1 / 2), Fin 0],
                                [Fin 0, Fin (1 / 250), Fin (1 / 250), Fin 0]]\<rparr>]
     = Inr ([Fin (1 / 20), Fin (1 / 20), NaN],
            [\<lparr>ncols = 4, rows = [[Fin 1, Fin (2 / 25), Fin (2 / 25), Fin 1],
                                  [Fin 1, Fin (2 / 25), NaN, Fin 1],
                                  [Fin 1, Fin (2 / 25), Fin (2 / 25), Fin 1]]\<rparr>,
             \<lparr>ncols = 4, rows = [[NaN, Fin (1 / 250), Fin (1 / 250), Fin 0],
                                  [Fin 0, Fin (1 / 2), Fin (1 / 2), Fin 0],
                                  [Fin 0, Fin (1 / 250), Fin (1 / 250), Fin 0]]\<rparr>])
   \<and> mol_on_lidar_alt_calibrated
         \<lparr>hdf = Some [''Molecular_Number_Density'' \<mapsto>
                        Arr2 \<lparr>ncols = 2, rows = [[Fin (2 / 25), Fin (2 / 25)],
                                                  [Fin (2 / 25), Fin (2 / 25)],
                                                  [Fin (2 / 25), Fin (2 / 25)]]\<rparr>],
            z = ''ZD'', valid_rms_profiles = None\<rparr>
         [35, 32, 31, 20] 1 [35, 32, 31, 20] 1 [40, 10] None (30, 34) (Some 0)
         [\<lparr>ncols = 4, rows = [[Fin 2, Fin (1 / 250), Fin (1 / 250), Fin 0],
                                [Fin 0, Fin (1 / 2), Fin (1 / 2), Fin 0],
                                [Fin 0, Fin (1 / 250), Fin (1 / 250), Fin 0]]\<rparr>]
     = Inr (1, [\<lparr>ncols = 4, rows = [[NaN, Fin (1 / 250), Fin (1 / 250), Fin 0],
                                     [Fin 0, Fin (1 / 2), Fin (1 / 2), Fin 0],
                                     [Fin 0, Fin (1 / 250), Fin (1 / 250), Fin 0]]\<rparr>,
                \<lparr>ncols = 4, rows = [[Fin (1 / 250), Fin (1 / 250), Fin (1 / 250), Fin (1 / 250)],
                                     [Fin (1 / 250), Fin (1 / 250), Fin (1 / 250), Fin (1 / 250)],
                                     [NaN, NaN, NaN, NaN]]\<rparr>])
   \<and> screen_atb 1 \<lparr>ncols = 4, rows = [[Fin 2, Fin (1 / 250), Fin (1 / 250), Fin 0],
                                [Fin 0, Fin (1 / 2), Fin (1 / 2), Fin 0],
                                [Fin 0, Fin (1 / 250), Fin (1 / 250), Fin 0]]\<rparr>
     = \<lparr>ncols = 4, rows = [[NaN, Fin (1 / 250), Fin (1 / 250), Fin 0],
                                     [Fin 0, Fin (1 / 2), Fin (1 / 2), Fin 0],
                                     [Fin 0, Fin (1 / 250), Fin (1 / 250), Fin 0]]\<rparr>"
proof -
  let ?mol = "\<lparr>ncols = 4, rows = [[Fin 1, Fin (2 / 25), Fin (2 / 25), Fin 1],
                                [Fin 1, Fin (2 / 25), Fin (- 1), Fin 1],
                                [Fin 1, Fin (2 / 25), Fin (2 / 25), Fin 1]]\<rparr>"
  let ?atb = "\<lparr>ncols = 4, rows = [[Fin 2, Fin (1 / 250), Fin (1 / 250), Fin 0],
                                [Fin 0, Fin (1 / 2), Fin (1 / 2), Fin 0],
                                [Fin 0, Fin (1 / 250), Fin (1 / 250), Fin 0]]\<rparr>"
  let ?mol' = "\<lparr>ncols = 4, rows = [[Fin 1, Fin (2 / 25), Fin (2 / 25), Fin 1],
                                  [Fin 1, Fin (2 / 25), NaN, Fin 1],
                                  [Fin 1, Fin (2 / 25), Fin (2 / 25), Fin 1]]\<rparr>"
  let ?atb' = "\<lparr>ncols = 4, rows = [[NaN, Fin (1 / 250), Fin (1 / 250), Fin 0],
                                  [Fin 0, Fin (1 / 2), Fin (1 / 2), Fin 0],
                                  [Fin 0, Fin (1 / 250), Fin (1 / 250), Fin 0]]\<rparr>"
  let ?cal = "\<lparr>ncols = 4, rows = [[Fin (1 / 250), Fin (1 / 250), Fin (1 / 250), Fin (1 / 250)],
                                     [Fin (1 / 250), Fin (1 / 250), Fin (1 / 250), Fin (1 / 250)],
                                     [NaN, NaN, NaN, NaN]]\<rparr>"
  let ?self = "\<lparr>hdf = None, z = ''ZD''\<rparr>"
  let ?file = "\<lparr>hdf = Some [''Molecular_Number_Density'' \<mapsto>
                        Arr2 \<lparr>ncols = 2, rows = [[Fin (2 / 25), Fin (2 / 25)],
                                                  [Fin (2 / 25), Fin (2 / 25)],
                                                  [Fin (2 / 25), Fin (2 / 25)]]\<rparr>],
            z = ''ZD'', valid_rms_profiles = None\<rparr>"
  let ?alt = "[35, 32, 31, 20] :: real list"
  have r1: "mol_calibration_coef ?self 0 1 ?alt 1 30 34 [?mol, ?atb]
              = Inr ([Fin (1 / 20), Fin (1 / 20), NaN], [?mol', ?atb'])"
    by code_simp
  have r2: "mol_on_lidar_alt_calibrated ?file ?alt 1 ?alt 1 [40, 10] None (30, 34) (Some 0) [?atb]
              = Inr (1, [?atb', ?cal])"
    by code_simp
  note t = C10_inputs_mutated_in_place[of ?self 0 1 ?alt 1 30 34 "[?mol, ?atb]"
             "[Fin (1 / 20), Fin (1 / 20), NaN]" "[?mol', ?atb']"
             ?file ?alt 1 ?alt 1 "[40, 10]" None "(30, 34)" 0 "[?atb]" 1 "[?atb', ?cal]"]
  have "\<exists>amax. atb_max ''ZD'' = Some amax \<and> ?atb' = screen_atb amax ?atb"
    using t r2 by simp
  then have "screen_atb 1 ?atb = ?atb'" by (auto simp: atb_max_def)
  with r1 r2 show ?thesis by (simp only: simp_thms)
qed

end
